theory Spec2Isabelle
  imports Complex_Main "HOL-Library.Multiset" "HOL-Library.Char_ord" "HOL-Library.List_Lexorder"
begin

section \<open>Data model\<close>

text \<open>
  The dashboard of \<^verbatim>\<open>app.py\<close> reads two tables with pandas. A table is a list of rows in file
  order; a row is a record with one field per column of section 6 of the specification.
  Text columns are strings (bytes of the UTF-8 encoding, so equality is equality of the
  Python strings); the two name columns that the code tests with \<^verbatim>\<open>dropna\<close> and
  \<^verbatim>\<open>pd.notna\<close> may be missing. The year column holds integers. The remaining numeric columns
  are exact rationals: the binary rounding of floating-point sums and products is not
  part of this development, the rounding functions that the code calls are. The column
  \<^verbatim>\<open>course_id\<close> of the prediction table is the field \<open>pred_course_id\<close>.
\<close>

record hist_row =
  course_id :: string
  curso :: string
  nome_universidade :: "string option"
  nome_faculdade :: "string option"
  ano :: int
  vagas_iniciais :: rat
  colocados :: rat
  taxa_ocupacao :: rat
  nota_ultimo_colocado :: rat
  vagas_sobrantes :: rat

record pred_row =
  pred_course_id :: string
  colocados_previsto :: rat
  nota_ultimo_colocado_prevista :: rat

text \<open>The exceptions of Python that the modelled code can raise.\<close>

datatype py_error = IndexError | ValueError

section \<open>Numbers and their text\<close>

text \<open>
  \<^verbatim>\<open>Series.round\<close>, \<^verbatim>\<open>numpy.float64.round\<close> and the format specifications \<^verbatim>\<open>.0f\<close>, \<^verbatim>\<open>.1f\<close>
  all round to nearest and resolve a tie to the even neighbour.
\<close>

definition round_half_even :: "rat \<Rightarrow> int" where
  "round_half_even x =
     (let f = \<lfloor>x\<rfloor>; d = x - of_int f
      in if d < 1 / 2 then f
         else if 1 / 2 < d then f + 1
         else if even f then f else f + 1)"

text \<open>\<^verbatim>\<open>round(1)\<close>: scale by ten, round to the nearest integer, scale back.\<close>

definition round1 :: "rat \<Rightarrow> rat" where
  "round1 x = of_int (round_half_even (x * 10)) / 10"

text \<open>\<^verbatim>\<open>int(x)\<close> and \<^verbatim>\<open>astype(int)\<close> drop the fractional part (towards zero).\<close>

definition py_int :: "rat \<Rightarrow> int" where
  "py_int x = (if 0 \<le> x then \<lfloor>x\<rfloor> else \<lceil>x\<rceil>)"

definition digit_char :: "nat \<Rightarrow> char" where
  "digit_char d = ''0123456789'' ! d"

fun str_nat :: "nat \<Rightarrow> string" where
  "str_nat n = (if n < 10 then [digit_char n] else str_nat (n div 10) @ [digit_char (n mod 10)])"

declare str_nat.simps [simp del]

text \<open>\<^verbatim>\<open>str\<close> of an integer.\<close>

definition str_int :: "int \<Rightarrow> string" where
  "str_int i = (if i < 0 then CHR ''-'' # str_nat (nat (- i)) else str_nat (nat i))"

text \<open>\<^verbatim>\<open>f"{x:.0f}"\<close> and \<^verbatim>\<open>f"{x:.1f}"\<close>: the sign is that of \<open>x\<close> itself, also when the digits are zero.\<close>

definition fmt_0f :: "rat \<Rightarrow> string" where
  "fmt_0f x = (if x < 0 then ''-'' else []) @ str_nat (nat (round_half_even \<bar>x\<bar>))"

definition fmt_1f :: "rat \<Rightarrow> string" where
  "fmt_1f x =
     (let n = nat (round_half_even (\<bar>x\<bar> * 10))
      in (if x < 0 then ''-'' else []) @ str_nat (n div 10) @ ''.'' @ str_nat (n mod 10))"

text \<open>
  The occupancy column of both tables (lines 215 and 412):
  \<^verbatim>\<open>(col * 100).round(0).astype(int).astype(str) + '%'\<close>.
\<close>

definition occupancy_percent :: "rat \<Rightarrow> string" where
  "occupancy_percent t = str_int (py_int (of_int (round_half_even (t * 100)))) @ ''%''"

text \<open>\<^verbatim>\<open>Series.mean\<close> of a non-empty column.\<close>

definition mean :: "rat list \<Rightarrow> rat" where
  "mean xs = sum_list xs / of_nat (length xs)"

section \<open>Single-course view\<close>

text \<open>
  What \<^verbatim>\<open>create_metric_columns\<close> puts into its six metric columns. The two forecast
  columns are filled only when the course has a prediction row; otherwise they stay empty.
\<close>

record metrics =
  avg_occupancy_metric :: string
  avg_grade_metric :: string
  most_recent_ano :: int
  last_grade_metric :: string
  last_placed_metric :: string
  forecast_metrics :: "(string \<times> string) option"

definition create_metric_columns ::
  "hist_row list \<Rightarrow> pred_row list \<Rightarrow> string \<Rightarrow> py_error + metrics" where
  "create_metric_columns course_data predictions selected_course =
     (if course_data = [] then Inl IndexError
      else
        let avg_occupancy = mean (map taxa_ocupacao course_data) * 100;
            avg_grade = mean (map nota_ultimo_colocado course_data);
            most_recent_year = last course_data;
            last_grade = nota_ultimo_colocado most_recent_year;
            last_placed = colocados most_recent_year;
            course_predictions = filter (\<lambda>p. pred_course_id p = selected_course) predictions
        in Inr \<lparr>avg_occupancy_metric = fmt_0f avg_occupancy @ ''%'',
                 avg_grade_metric = fmt_1f avg_grade,
                 most_recent_ano = ano most_recent_year,
                 last_grade_metric = fmt_1f last_grade,
                 last_placed_metric = str_int (py_int last_placed),
                 forecast_metrics =
                   (case course_predictions of
                      [] \<Rightarrow> None
                    | p # _ \<Rightarrow>
                        Some (fmt_1f (nota_ultimo_colocado_prevista p),
                              str_int (py_int (colocados_previsto p))))\<rparr>)"

text \<open>The two series of \<^verbatim>\<open>create_evolution_charts\<close>: placed students and grade, by year.\<close>

definition create_evolution_charts ::
  "hist_row list \<Rightarrow> (int \<times> rat) list \<times> (int \<times> rat) list" where
  "create_evolution_charts course_data =
     (map (\<lambda>r. (ano r, colocados r)) course_data,
      map (\<lambda>r. (ano r, nota_ultimo_colocado r)) course_data)"

record detail_row =
  Ano :: int
  Vagas_Iniciais :: int
  Alunos_Colocados :: int
  Taxa_de_Ocupacao :: string
  Nota_do_Ultimo_Colocado :: rat
  Vagas_Restantes :: int

definition create_detailed_table :: "hist_row list \<Rightarrow> detail_row list" where
  "create_detailed_table course_data =
     map (\<lambda>r. \<lparr>Ano = ano r,
                Vagas_Iniciais = py_int (vagas_iniciais r),
                Alunos_Colocados = py_int (colocados r),
                Taxa_de_Ocupacao = occupancy_percent (taxa_ocupacao r),
                Nota_do_Ultimo_Colocado = round1 (nota_ultimo_colocado r),
                Vagas_Restantes = py_int (vagas_sobrantes r)\<rparr>) course_data"

text \<open>
  What one run puts on the page. Headings without data, column layout and styling are
  left out; the messages are named by what they report.
\<close>

datatype notice =
    Files_not_found
  | No_course_data
  | No_comparison_data
  | No_year_selected
  | No_course_selected

record trace =
  trace_x :: "int list"
  trace_y :: "rat list"
  trace_name :: string
  trace_color :: string
  trace_dotted :: bool

text \<open>
  A row of the comparison summary. Its columns \<^verbatim>\<open>Ano\<close> and \<^verbatim>\<open>Vagas Restantes\<close> are the fields
  \<open>Ano_resumo\<close> and \<open>Vagas_Restantes_resumo\<close>; the latter holds a number in the rows of
  a historical year and the placeholder word in the rows of the forecast.
\<close>

datatype cell = Number rat | Text string

record summary_row =
  Curso :: string
  Ano_resumo :: int
  Ocupacao :: string
  Nota_Minima :: rat
  Vagas_Restantes_resumo :: cell

datatype element =
    St_error notice
  | St_warning notice
  | St_info notice
  | Main_header
  | Course_header string "string option" "string option"
  | Metric_columns metrics
  | Line_chart "(int \<times> rat) list"
  | Detail_table "detail_row list"
  | Comparison_chart "trace list"
  | Summary_table "summary_row list"

text \<open>
  Lines 234 to 238: the rows of the selected course within the year range, by year.
  \<^verbatim>\<open>sort_values\<close> promises no order among rows of equal year; here such rows keep their
  file order, and nothing proved below depends on it.
\<close>

definition filter_course_period :: "hist_row list \<Rightarrow> string \<Rightarrow> int \<times> int \<Rightarrow> hist_row list" where
  "filter_course_period df selected_course year_range =
     sort_key ano
       (filter (\<lambda>r. course_id r = selected_course \<and>
                      fst year_range \<le> ano r \<and> ano r \<le> snd year_range) df)"

definition create_course_evolution_view ::
  "hist_row list \<Rightarrow> pred_row list \<Rightarrow> string \<Rightarrow> int \<times> int \<Rightarrow> py_error + element list" where
  "create_course_evolution_view df predictions selected_course year_range =
     (let course_data = filter_course_period df selected_course year_range
      in case course_data of
           [] \<Rightarrow> Inr [St_warning No_course_data]
         | r0 # _ \<Rightarrow>
             (case create_metric_columns course_data predictions selected_course of
                Inl e \<Rightarrow> Inl e
              | Inr m \<Rightarrow>
                  Inr [Course_header (curso r0) (nome_universidade r0) (nome_faculdade r0),
                       Metric_columns m,
                       Line_chart (fst (create_evolution_charts course_data)),
                       Line_chart (snd (create_evolution_charts course_data)),
                       Detail_table (create_detailed_table course_data)]))"

section \<open>Multi-course comparison\<close>

text \<open>
  \<^verbatim>\<open>px.colors.qualitative.Set1\<close>, the palette of the plotting library, which the source
  names without listing it: the nine colours of ColorBrewer's Set1. The properties below
  use that they are nine and that no two are equal.
\<close>

definition Set1 :: "string list" where
  "Set1 = [''rgb(228,26,28)'', ''rgb(55,126,184)'', ''rgb(77,175,74)'',
           ''rgb(152,78,163)'', ''rgb(255,127,0)'', ''rgb(255,255,51)'',
           ''rgb(166,86,40)'', ''rgb(247,129,191)'', ''rgb(153,153,153)'']"

text \<open>The placeholder word of the forecast, its a-tilde being two bytes in UTF-8.\<close>

definition Previsao :: string where
  "Previsao = ''Previs'' @ [CHR 0xC3, CHR 0xA3] @ ''o''"

text \<open>
  The plotted column. The callers pass \<^verbatim>\<open>'colocados'\<close> or \<^verbatim>\<open>'nota_ultimo_colocado'\<close>, the two
  keys of the dictionary that names the matching prediction column (lines 323 to 326).
\<close>

datatype y_column = Y_colocados | Y_nota_ultimo_colocado

fun column :: "y_column \<Rightarrow> hist_row \<Rightarrow> rat" where
  "column Y_colocados r = colocados r"
| "column Y_nota_ultimo_colocado r = nota_ultimo_colocado r"

fun prediction_column :: "y_column \<Rightarrow> pred_row \<Rightarrow> rat" where
  "prediction_column Y_colocados p = colocados_previsto p"
| "prediction_column Y_nota_ultimo_colocado p = nota_ultimo_colocado_prevista p"

text \<open>
  One pass of the loop of \<^verbatim>\<open>create_comparison_chart\<close> (lines 299 to 346) for one course: the
  traces that the pass adds to the figure, \<open>n\<close> being \<^verbatim>\<open>len(fig.data)\<close> when it picks the
  colour. The vertical marker of line 288 is a layout shape and no trace, so the first
  pass starts with no trace. \<^verbatim>\<open>iloc[0]\<close> on an empty selection raises \<^verbatim>\<open>IndexError\<close>.
\<close>

definition course_traces ::
  "hist_row list \<Rightarrow> pred_row list \<Rightarrow> y_column \<Rightarrow> nat \<Rightarrow> string \<Rightarrow> py_error + trace list" where
  "course_traces historical_data predictions y_column n course =
     (let course_data = filter (\<lambda>r. course_id r = course) historical_data
      in case course_data of
           [] \<Rightarrow> Inl IndexError
         | r0 # _ \<Rightarrow>
             (let course_name = curso r0;
                  last_year = Max (set (map ano course_data))
              in case filter (\<lambda>r. ano r = last_year) course_data of
                   [] \<Rightarrow> Inl IndexError
                 | r1 # _ \<Rightarrow>
                     (let last_value = column y_column r1;
                          line_color = Set1 ! (n mod length Set1);
                          historical =
                            \<lparr>trace_x = map ano course_data,
                             trace_y = map (column y_column) course_data,
                             trace_name = course_name,
                             trace_color = line_color,
                             trace_dotted = False\<rparr>
                      in case filter (\<lambda>p. pred_course_id p = course) predictions of
                           [] \<Rightarrow> Inr [historical]
                         | p # _ \<Rightarrow>
                             Inr [historical,
                                  \<lparr>trace_x = [last_year, 2025],
                                   trace_y = [last_value, prediction_column y_column p],
                                   trace_name = course_name @ '' ('' @ Previsao @ '')'',
                                   trace_color = line_color,
                                   trace_dotted = True\<rparr>])))"

text \<open>The loop of line 298, \<open>fig_data\<close> being the traces drawn so far.\<close>

fun comparison_traces ::
  "hist_row list \<Rightarrow> pred_row list \<Rightarrow> y_column \<Rightarrow> trace list \<Rightarrow> string list \<Rightarrow> py_error + trace list" where
  "comparison_traces historical_data predictions y_column fig_data [] = Inr fig_data"
| "comparison_traces historical_data predictions y_column fig_data (course # rest) =
     (case course_traces historical_data predictions y_column (length fig_data) course of
        Inl e \<Rightarrow> Inl e
      | Inr added \<Rightarrow>
          comparison_traces historical_data predictions y_column (fig_data @ added) rest)"

definition create_comparison_chart ::
  "hist_row list \<Rightarrow> pred_row list \<Rightarrow> string list \<Rightarrow> y_column \<Rightarrow> py_error + trace list" where
  "create_comparison_chart historical_data predictions selected_courses y_column =
     comparison_traces historical_data predictions y_column [] selected_courses"

text \<open>
  \<^verbatim>\<open>create_comparison_summary\<close>, the branch of the year 2025 (lines 395 to 406): the inner loop
  over the selected courses, \<open>year_summary\<close> being the rows collected so far.
\<close>

fun forecast_summary ::
  "hist_row list \<Rightarrow> pred_row list \<Rightarrow> summary_row list \<Rightarrow> string list \<Rightarrow> py_error + summary_row list" where
  "forecast_summary df predictions year_summary [] = Inr year_summary"
| "forecast_summary df predictions year_summary (course # rest) =
     (case filter (\<lambda>p. pred_course_id p = course) predictions of
        [] \<Rightarrow> forecast_summary df predictions year_summary rest
      | p # _ \<Rightarrow>
          (case filter (\<lambda>r. course_id r = course) df of
             [] \<Rightarrow> Inl IndexError
           | course_data # _ \<Rightarrow>
               forecast_summary df predictions
                 (year_summary @
                    [\<lparr>Curso = curso course_data,
                      Ano_resumo = 2025,
                      Ocupacao = Previsao,
                      Nota_Minima = round1 (nota_ultimo_colocado_prevista p),
                      Vagas_Restantes_resumo = Text Previsao\<rparr>])
                 rest))"

text \<open>The branch of every other year (lines 408 to 414), on the rows of line 388.\<close>

definition historical_summary :: "hist_row list \<Rightarrow> string list \<Rightarrow> int \<Rightarrow> summary_row list" where
  "historical_summary df selected_courses selected_year =
     map (\<lambda>r. \<lparr>Curso = curso r,
                Ano_resumo = ano r,
                Ocupacao = occupancy_percent (taxa_ocupacao r),
                Nota_Minima = round1 (nota_ultimo_colocado r),
                Vagas_Restantes_resumo = Number (vagas_sobrantes r)\<rparr>)
       (filter (\<lambda>r. course_id r \<in> set selected_courses \<and> ano r = selected_year) df)"

definition year_summary ::
  "hist_row list \<Rightarrow> pred_row list \<Rightarrow> string list \<Rightarrow> int \<Rightarrow> py_error + summary_row list" where
  "year_summary df predictions selected_courses selected_year =
     (if selected_year = 2025 then forecast_summary df predictions [] selected_courses
      else Inr (historical_summary df selected_courses selected_year))"

text \<open>The outer loop (line 386), \<open>summary_dataframes\<close> being the blocks appended so far.\<close>

fun summary_blocks ::
  "hist_row list \<Rightarrow> pred_row list \<Rightarrow> string list \<Rightarrow> summary_row list list \<Rightarrow> int list
     \<Rightarrow> py_error + summary_row list list" where
  "summary_blocks df predictions selected_courses summary_dataframes [] = Inr summary_dataframes"
| "summary_blocks df predictions selected_courses summary_dataframes (selected_year # rest) =
     (case year_summary df predictions selected_courses selected_year of
        Inl e \<Rightarrow> Inl e
      | Inr block \<Rightarrow>
          summary_blocks df predictions selected_courses (summary_dataframes @ [block]) rest)"

definition create_comparison_summary ::
  "hist_row list \<Rightarrow> pred_row list \<Rightarrow> string list \<Rightarrow> int list \<Rightarrow> py_error + summary_row list option" where
  "create_comparison_summary df predictions selected_courses selected_years =
     (case summary_blocks df predictions selected_courses [] selected_years of
        Inl e \<Rightarrow> Inl e
      | Inr summary_dataframes \<Rightarrow>
          Inr (if summary_dataframes = [] then None else Some (concat summary_dataframes)))"

text \<open>
  \<^verbatim>\<open>drop_duplicates\<close>, \<^verbatim>\<open>unique\<close> and \<^verbatim>\<open>list(dict.fromkeys(...))\<close> keep the first occurrence of
  every key, in the order of first appearance.
\<close>

fun drop_duplicates_seen :: "'k list \<Rightarrow> ('a \<Rightarrow> 'k) \<Rightarrow> 'a list \<Rightarrow> 'a list" where
  "drop_duplicates_seen seen key [] = []"
| "drop_duplicates_seen seen key (x # xs) =
     (if key x \<in> set seen then drop_duplicates_seen seen key xs
      else x # drop_duplicates_seen (key x # seen) key xs)"

definition drop_duplicates :: "('a \<Rightarrow> 'k) \<Rightarrow> 'a list \<Rightarrow> 'a list" where
  "drop_duplicates key xs = drop_duplicates_seen [] key xs"

definition unique :: "'a list \<Rightarrow> 'a list" where
  "unique xs = drop_duplicates (\<lambda>x. x) xs"

definition dict_fromkeys :: "'a list \<Rightarrow> 'a list" where
  "dict_fromkeys xs = drop_duplicates (\<lambda>x. x) xs"

text \<open>
  \<^verbatim>\<open>st.multiselect\<close> with a default: what the user picked among the options, the default as
  long as the widget is untouched.
\<close>

definition multiselect :: "'a list \<Rightarrow> 'a list \<Rightarrow> 'a list option \<Rightarrow> 'a list" where
  "multiselect options default_value pick =
     (case pick of None \<Rightarrow> default_value | Some vs \<Rightarrow> filter (\<lambda>v. v \<in> set options) vs)"

definition create_course_comparison_view ::
  "hist_row list \<Rightarrow> string list \<Rightarrow> pred_row list \<Rightarrow> int list option \<Rightarrow> py_error + element list" where
  "create_course_comparison_view df selected_courses predictions years_picked =
     (let historical_data = filter (\<lambda>r. course_id r \<in> set selected_courses) df
      in if historical_data = [] then Inr [St_warning No_comparison_data]
         else
           case create_comparison_chart historical_data predictions selected_courses Y_colocados of
             Inl e \<Rightarrow> Inl e
           | Inr fig_evolution \<Rightarrow>
              (case create_comparison_chart historical_data predictions selected_courses
                      Y_nota_ultimo_colocado of
                 Inl e \<Rightarrow> Inl e
               | Inr fig_grades \<Rightarrow>
                  (case rev (sort (unique (map ano historical_data))) of
                     [] \<Rightarrow> Inl IndexError
                   | y0 # ys \<Rightarrow>
                      (let selected_years = multiselect (y0 # ys) [y0] years_picked
                       in if selected_years = []
                          then Inr [Comparison_chart fig_evolution, Comparison_chart fig_grades,
                                    St_info No_year_selected]
                          else
                            case create_comparison_summary df predictions selected_courses
                                   selected_years of
                              Inl e \<Rightarrow> Inl e
                            | Inr None \<Rightarrow>
                                Inr [Comparison_chart fig_evolution, Comparison_chart fig_grades]
                            | Inr (Some final_summary) \<Rightarrow>
                                Inr [Comparison_chart fig_evolution, Comparison_chart fig_grades,
                                     Summary_table final_summary]))))"

section \<open>Course selection\<close>

text \<open>
  \<^verbatim>\<open>st.selectbox\<close>: the user's pick when it is one of the options, the option at the default
  index otherwise, and \<^verbatim>\<open>None\<close> when there is no option.
\<close>

definition selectbox :: "'a list \<Rightarrow> nat \<Rightarrow> 'a option \<Rightarrow> 'a option" where
  "selectbox options index pick =
     (let default_value = (if options = [] then None else Some (options ! index))
      in case pick of
           None \<Rightarrow> default_value
         | Some v \<Rightarrow> if v \<in> set options then Some v else default_value)"

text \<open>\<^verbatim>\<open>xs.index(x) if x in xs else 0\<close>.\<close>

definition index_or_0 :: "'a list \<Rightarrow> 'a \<Rightarrow> nat" where
  "index_or_0 xs x = (if x \<in> set xs then length (takeWhile (\<lambda>y. y \<noteq> x) xs) else 0)"

definition Gestao :: string where
  "Gestao = ''Gest'' @ [CHR 0xC3, CHR 0xA3] @ ''o''"

definition Universidade_de_Lisboa :: string where
  "Universidade_de_Lisboa = ''Universidade de Lisboa''"

definition Instituto_Superior_de_Economia_e_Gestao :: string where
  "Instituto_Superior_de_Economia_e_Gestao = ''Instituto Superior de Economia e '' @ Gestao"

record picks =
  pick_university :: "string option"
  pick_faculty :: "string option"
  pick_course :: "string option"

definition create_course_selection_ui ::
  "hist_row list \<Rightarrow> picks \<Rightarrow> string option \<times> string option \<times> string option" where
  "create_course_selection_ui df user =
     (let universities = rev (sort (unique (map the (filter (\<lambda>u. u \<noteq> None) (map nome_universidade df)))));
          selected_university =
            selectbox universities (index_or_0 universities Universidade_de_Lisboa)
              (pick_university user);
          faculties = rev (sort (unique (map the (filter (\<lambda>f. f \<noteq> None)
            (map nome_faculdade
               (filter (\<lambda>r. selected_university \<noteq> None \<and> nome_universidade r = selected_university)
                  df))))));
          selected_faculty =
            selectbox faculties (index_or_0 faculties Instituto_Superior_de_Economia_e_Gestao)
              (pick_faculty user);
          courses = filter (\<lambda>r. selected_university \<noteq> None \<and> nome_universidade r = selected_university \<and>
                                 selected_faculty \<noteq> None \<and> nome_faculdade r = selected_faculty) df;
          courses_unique = sort_key curso (drop_duplicates course_id courses);
          selected_course = selectbox (map course_id courses_unique) 0 (pick_course user)
      in (selected_university, selected_faculty, selected_course))"

section \<open>Selection set\<close>

text \<open>
  The session state holds the list \<^verbatim>\<open>selected_courses\<close>, or nothing before the first run. A
  run sees at most one clicked button. A run ends by returning, by \<^verbatim>\<open>st.rerun()\<close> or by an
  exception; what it assigned to the session state stays in each case.
\<close>

type_synonym session = "string list option"

datatype click = No_click | Add_button | Remove_button nat | Clear_button

datatype 'a run = Returned 'a | Rerun | Raised py_error

text \<open>Lines 592 to 599: the list of the session, the default courses when there is none.\<close>

definition default_courses :: "hist_row list \<Rightarrow> string list" where
  "default_courses df =
     unique (map course_id
       (filter (\<lambda>r. nome_universidade r = Some Universidade_de_Lisboa \<and>
                      nome_faculdade r = Some Instituto_Superior_de_Economia_e_Gestao \<and>
                      curso r \<in> set [''Economia'', Gestao]) df))"

definition initialize :: "hist_row list \<Rightarrow> session \<Rightarrow> string list" where
  "initialize df state = (case state of None \<Rightarrow> default_courses df | Some selected \<Rightarrow> selected)"

text \<open>Python's truth value of the selected course: neither \<^verbatim>\<open>None\<close> nor the empty string.\<close>

definition truthy :: "string option \<Rightarrow> bool" where
  "truthy selected_course = (case selected_course of None \<Rightarrow> False | Some c \<Rightarrow> c \<noteq> [])"

definition create_course_comparison_ui ::
  "hist_row list \<Rightarrow> string option \<Rightarrow> click \<Rightarrow> session \<Rightarrow> string list run \<times> session" where
  "create_course_comparison_ui df selected_course clicked state =
     (let selected = initialize df state
      in if truthy selected_course \<and> the selected_course \<notin> set selected \<and> clicked = Add_button
         then (Rerun, Some (selected @ [the selected_course]))
         else if selected = [] then (Returned selected, Some selected)
         else
           let selected' = dict_fromkeys selected
           in if list_ex (\<lambda>c. filter (\<lambda>r. course_id r = c) df = []) selected'
              then (Raised IndexError, Some selected')
              else
                case clicked of
                  Remove_button i \<Rightarrow>
                    if i < length selected'
                    then (Rerun, Some (remove1 (selected' ! i) selected'))
                    else (Returned selected', Some selected')
                | Clear_button \<Rightarrow> (Rerun, Some [])
                | _ \<Rightarrow> (Returned selected', Some selected'))"

section \<open>Dataset loader and main\<close>

text \<open>
  The two input files: absent, or present with the table that \<^verbatim>\<open>pd.read_csv\<close> reads from
  it. Only \<^verbatim>\<open>FileNotFoundError\<close> is caught by the loader; parsing is outside this development.
\<close>

record files =
  cleaned_data_csv :: "hist_row list option"
  predictions_2025_csv :: "pred_row list option"

text \<open>
  What \<^verbatim>\<open>load_data\<close> returns: the two tables, or the pair \<^verbatim>\<open>(None, None)\<close>, written \<open>None\<close>.
\<close>

type_synonym loaded = "(hist_row list \<times> pred_row list) option"

text \<open>The body of \<^verbatim>\<open>load_data\<close> (lines 100 to 106): its value and what it shows.\<close>

definition load_data_body :: "files \<Rightarrow> loaded \<times> element list" where
  "load_data_body fs =
     (case cleaned_data_csv fs of
        None \<Rightarrow> (None, [St_error Files_not_found])
      | Some df \<Rightarrow>
          (case predictions_2025_csv fs of
             None \<Rightarrow> (None, [St_error Files_not_found])
           | Some predictions \<Rightarrow> (Some (df, predictions), [])))"

text \<open>
  \<^verbatim>\<open>@st.cache_data\<close> (line 92): the first call in a process runs the body and stores its value
  together with the elements it showed; every later call returns the stored value and
  shows the stored elements again, without reading the files.
\<close>

type_synonym cache = "(loaded \<times> element list) option"

definition load_data :: "files \<Rightarrow> cache \<Rightarrow> (loaded \<times> element list) \<times> cache" where
  "load_data fs cached =
     (case cached of
        Some hit \<Rightarrow> (hit, cached)
      | None \<Rightarrow> (let result = load_data_body fs in (result, Some result)))"

record interaction =
  tab1 :: picks
  tab2 :: picks
  clicked_button :: click
  pick_years :: "int list option"

text \<open>The first tab of \<^verbatim>\<open>main\<close> (lines 660 to 669).\<close>

definition evolution_tab :: "hist_row list \<Rightarrow> pred_row list \<Rightarrow> picks \<Rightarrow> py_error + element list" where
  "evolution_tab df predictions user =
     (let selected_course = snd (snd (create_course_selection_ui df user))
      in if truthy selected_course
         then (if df = [] then Inl ValueError
               else create_course_evolution_view df predictions (the selected_course)
                      (Min (set (map ano df)), Max (set (map ano df))))
         else Inr [])"

text \<open>The second tab (lines 671 to 683).\<close>

definition comparison_tab ::
  "hist_row list \<Rightarrow> pred_row list \<Rightarrow> interaction \<Rightarrow> session \<Rightarrow> element list run \<times> session" where
  "comparison_tab df predictions user state =
     (let selected_course = snd (snd (create_course_selection_ui df (tab2 user)))
      in case create_course_comparison_ui df selected_course (clicked_button user) state of
           (Rerun, state') \<Rightarrow> (Rerun, state')
         | (Raised e, state') \<Rightarrow> (Raised e, state')
         | (Returned selected_courses, state') \<Rightarrow>
             (if selected_courses \<noteq> []
              then (case create_course_comparison_view df selected_courses predictions
                           (pick_years user) of
                      Inl e \<Rightarrow> (Raised e, state')
                    | Inr shown \<Rightarrow> (Returned shown, state'))
              else (Returned [St_info No_course_selected], state')))"

text \<open>
  \<^verbatim>\<open>main\<close>: the page of one run, with the cache and the session state it leaves.
\<close>

definition main ::
  "files \<Rightarrow> cache \<Rightarrow> session \<Rightarrow> interaction \<Rightarrow> element list run \<times> cache \<times> session" where
  "main fs cached state user =
     (case load_data fs cached of
        ((None, shown), cached') \<Rightarrow> (Returned (Main_header # shown), cached', state)
      | ((Some (df, predictions), shown), cached') \<Rightarrow>
          (case evolution_tab df predictions (tab1 user) of
             Inl e \<Rightarrow> (Raised e, cached', state)
           | Inr shown1 \<Rightarrow>
               (case comparison_tab df predictions user state of
                  (Rerun, state') \<Rightarrow> (Rerun, cached', state')
                | (Raised e, state') \<Rightarrow> (Raised e, cached', state')
                | (Returned shown2, state') \<Rightarrow>
                    (Returned (Main_header # shown @ shown1 @ shown2), cached', state'))))"

text \<open>
  A session on the second tab: the script runs once per interaction of the user, each run
  on the session state that the run before left, over the tables loaded once.
\<close>

fun comparison_session ::
  "hist_row list \<Rightarrow> pred_row list \<Rightarrow> session \<Rightarrow> interaction list \<Rightarrow> session" where
  "comparison_session df predictions state [] = state"
| "comparison_session df predictions state (user # later) =
     comparison_session df predictions (snd (comparison_tab df predictions user state)) later"

section \<open>Example data\<close>

text \<open>
  The table of the example in section 8 of the specification: course \<^verbatim>\<open>C1\<close> with the years
  2020 to 2024, placed students 10, 12, 11, 13, 14 and occupancy 0.5, 0.6, 0.55, 0.65, 0.7,
  and its prediction of 15 placed students and grade 14.2. The example leaves the grades
  open, so they are a parameter; twenty initial slots fit the occupancy of every year.
\<close>

definition example_row :: "(int \<Rightarrow> rat) \<Rightarrow> int \<Rightarrow> rat \<Rightarrow> rat \<Rightarrow> hist_row" where
  "example_row grade y placed occupancy =
     \<lparr>course_id = ''C1'', curso = ''Course 1'', nome_universidade = Some ''U'',
      nome_faculdade = Some ''F'', ano = y, vagas_iniciais = 20, colocados = placed,
      taxa_ocupacao = occupancy, nota_ultimo_colocado = grade y, vagas_sobrantes = 20 - placed\<rparr>"

definition example_table :: "(int \<Rightarrow> rat) \<Rightarrow> hist_row list" where
  "example_table grade =
     [example_row grade 2020 10 (5 / 10), example_row grade 2021 12 (6 / 10),
      example_row grade 2022 11 (55 / 100), example_row grade 2023 13 (65 / 100),
      example_row grade 2024 14 (7 / 10)]"

definition example_predictions :: "pred_row list" where
  "example_predictions =
     [\<lparr>pred_course_id = ''C1'', colocados_previsto = 15, nota_ultimo_colocado_prevista = 142 / 10\<rparr>]"

text \<open>
  Six courses with one historical row each, the first four with a prediction.
\<close>

definition six_courses :: "string list" where
  "six_courses = [''A'', ''B'', ''C'', ''D'', ''E'', ''F'']"

definition six_history :: "hist_row list" where
  "six_history =
     map (\<lambda>c. \<lparr>course_id = c, curso = c, nome_universidade = Some ''U'', nome_faculdade = Some ''F'',
                ano = 2024, vagas_iniciais = 20, colocados = 10, taxa_ocupacao = 1 / 2,
                nota_ultimo_colocado = 12, vagas_sobrantes = 10\<rparr>) six_courses"

definition six_predictions :: "pred_row list" where
  "six_predictions =
     map (\<lambda>c. \<lparr>pred_course_id = c, colocados_previsto = 11, nota_ultimo_colocado_prevista = 12\<rparr>)
       [''A'', ''B'', ''C'', ''D'']"

text \<open>
  An interaction that leaves every widget untouched and clicks the button that adds the
  selected course.
\<close>

definition add_click :: interaction where
  "add_click = \<lparr>tab1 = \<lparr>pick_university = None, pick_faculty = None, pick_course = None\<rparr>,
                tab2 = \<lparr>pick_university = None, pick_faculty = None, pick_course = None\<rparr>,
                clicked_button = Add_button, pick_years = None\<rparr>"

section \<open>Numbers\<close>



section \<open>First occurrences\<close>

lemma drop_duplicates_seen_set:
  "set (drop_duplicates_seen seen (\<lambda>x. x) xs) = set xs - set seen"
  by (induction xs arbitrary: seen) auto

lemma drop_duplicates_seen_distinct:
  "distinct (drop_duplicates_seen seen (\<lambda>x. x) xs)"
  by (induction xs arbitrary: seen) (auto simp: drop_duplicates_seen_set)

lemma drop_duplicates_seen_id:
  "distinct xs \<Longrightarrow> set xs \<inter> set seen = {} \<Longrightarrow> drop_duplicates_seen seen (\<lambda>x. x) xs = xs"
  by (induction xs arbitrary: seen) auto

lemma drop_duplicates_seen_subset:
  "set (drop_duplicates_seen seen key xs) \<subseteq> set xs"
  by (induction xs arbitrary: seen) auto

lemma unique_distinct: "distinct (unique xs)"
  by (simp add: unique_def drop_duplicates_def drop_duplicates_seen_distinct)

lemma unique_set: "set (unique xs) = set xs"
  by (simp add: unique_def drop_duplicates_def drop_duplicates_seen_set)

lemma dict_fromkeys_distinct: "distinct xs \<Longrightarrow> dict_fromkeys xs = xs"
  by (simp add: dict_fromkeys_def drop_duplicates_def drop_duplicates_seen_id)

section \<open>Properties of the single-course view\<close>

lemma filter_course_period_mset:
  "mset (filter_course_period df c (lo, hi)) =
     filter_mset (\<lambda>r. course_id r = c \<and> lo \<le> ano r \<and> ano r \<le> hi) (mset df)"
  by (simp add: filter_course_period_def)

lemma filter_course_period_sorted: "sorted (map ano (filter_course_period df c yr))"
  by (simp add: filter_course_period_def)

lemma filter_course_period_set:
  "set (filter_course_period df c (lo, hi)) =
     {r \<in> set df. course_id r = c \<and> lo \<le> ano r \<and> ano r \<le> hi}"
  by (simp add: filter_course_period_def)

lemma filter_course_period_empty:
  "(filter_course_period df c (lo, hi) = []) =
     (\<forall>r \<in> set df. \<not> (course_id r = c \<and> lo \<le> ano r \<and> ano r \<le> hi))"
proof -
  have "(filter_course_period df c (lo, hi) = []) = (set (filter_course_period df c (lo, hi)) = {})"
    by simp
  also have "\<dots> = (\<forall>r \<in> set df. \<not> (course_id r = c \<and> lo \<le> ano r \<and> ano r \<le> hi))"
    unfolding filter_course_period_set by blast
  finally show ?thesis .
qed

lemma create_metric_columns_nonempty:
  "course_data \<noteq> [] \<Longrightarrow> \<exists>m. create_metric_columns course_data predictions c = Inr m"
  by (simp add: create_metric_columns_def Let_def)



text \<open>
  Claim C2. For every historical table, course identifier and inclusive year range, the
  single-course view works on exactly the rows of that course whose year lies in the
  range (as a multiset: every such row, as often as the table has it, and no other),
  in ascending order of the year. When no row qualifies, the view is the warning that no
  data was found and nothing else; when some row qualifies, the view is the header, the
  metrics, the two charts and the table, each computed from those rows.
\<close>

theorem single_course_filter_sorted:
  assumes "course_data = filter_course_period df c (lo, hi)"
  shows "mset course_data =
           filter_mset (\<lambda>r. course_id r = c \<and> lo \<le> ano r \<and> ano r \<le> hi) (mset df)
    \<and> sorted (map ano course_data)
    \<and> ((\<forall>r \<in> set df. \<not> (course_id r = c \<and> lo \<le> ano r \<and> ano r \<le> hi)) \<longrightarrow>
         create_course_evolution_view df predictions c (lo, hi) = Inr [St_warning No_course_data])
    \<and> ((\<exists>r \<in> set df. course_id r = c \<and> lo \<le> ano r \<and> ano r \<le> hi) \<longrightarrow>
         (\<exists>m. create_metric_columns course_data predictions c = Inr m \<and>
              create_course_evolution_view df predictions c (lo, hi) =
                Inr [Course_header (curso (hd course_data)) (nome_universidade (hd course_data))
                       (nome_faculdade (hd course_data)),
                     Metric_columns m,
                     Line_chart (map (\<lambda>r. (ano r, colocados r)) course_data),
                     Line_chart (map (\<lambda>r. (ano r, nota_ultimo_colocado r)) course_data),
                     Detail_table (create_detailed_table course_data)]))"
proof (intro conjI impI)
  show "mset course_data =
          filter_mset (\<lambda>r. course_id r = c \<and> lo \<le> ano r \<and> ano r \<le> hi) (mset df)"
    unfolding assms by (rule filter_course_period_mset)
  show "sorted (map ano course_data)"
    unfolding assms by (rule filter_course_period_sorted)
next
  assume "\<forall>r \<in> set df. \<not> (course_id r = c \<and> lo \<le> ano r \<and> ano r \<le> hi)"
  then have "filter_course_period df c (lo, hi) = []"
    by (simp only: filter_course_period_empty)
  then show "create_course_evolution_view df predictions c (lo, hi) = Inr [St_warning No_course_data]"
    by (simp add: create_course_evolution_view_def)
next
  assume "\<exists>r \<in> set df. course_id r = c \<and> lo \<le> ano r \<and> ano r \<le> hi"
  then have ne: "course_data \<noteq> []"
    unfolding assms by (simp only: filter_course_period_empty) blast
  then obtain m where m: "create_metric_columns course_data predictions c = Inr m"
    using create_metric_columns_nonempty by blast
  from ne obtain r0 rest where cd: "course_data = r0 # rest"
    by (cases course_data) auto
  have "create_course_evolution_view df predictions c (lo, hi) =
          Inr [Course_header (curso (hd course_data)) (nome_universidade (hd course_data))
                 (nome_faculdade (hd course_data)),
               Metric_columns m,
               Line_chart (map (\<lambda>r. (ano r, colocados r)) course_data),
               Line_chart (map (\<lambda>r. (ano r, nota_ultimo_colocado r)) course_data),
               Detail_table (create_detailed_table course_data)]"
    using m cd unfolding assms
    by (simp add: create_course_evolution_view_def create_evolution_charts_def)
  with m show "\<exists>m. create_metric_columns course_data predictions c = Inr m \<and>
              create_course_evolution_view df predictions c (lo, hi) =
                Inr [Course_header (curso (hd course_data)) (nome_universidade (hd course_data))
                       (nome_faculdade (hd course_data)),
                     Metric_columns m,
                     Line_chart (map (\<lambda>r. (ano r, colocados r)) course_data),
                     Line_chart (map (\<lambda>r. (ano r, nota_ultimo_colocado r)) course_data),
                     Detail_table (create_detailed_table course_data)]"
    by blast
qed

theorem single_course_filter_sorted_witness:
  "filter_course_period (example_table (\<lambda>y. 12)) ''C1'' (2021, 2022) =
     [example_row (\<lambda>y. 12) 2021 12 (6 / 10), example_row (\<lambda>y. 12) 2022 11 (55 / 100)]
   \<and> sorted (map ano (filter_course_period (example_table (\<lambda>y. 12)) ''C1'' (2021, 2022)))
   \<and> create_course_evolution_view (example_table (\<lambda>y. 12)) example_predictions ''C2'' (2021, 2022) =
        Inr [St_warning No_course_data]
   \<and> (\<exists>m. create_course_evolution_view (example_table (\<lambda>y. 12)) example_predictions ''C1'' (2021, 2022) =
            Inr [Course_header ''Course 1'' (Some ''U'') (Some ''F''),
                 Metric_columns m,
                 Line_chart [(2021, 12), (2022, 11)],
                 Line_chart [(2021, 12), (2022, 12)],
                 Detail_table (create_detailed_table
                   [example_row (\<lambda>y. 12) 2021 12 (6 / 10), example_row (\<lambda>y. 12) 2022 11 (55 / 100)])])"
proof -
  have cd: "filter_course_period (example_table (\<lambda>y. 12)) ''C1'' (2021, 2022) =
     [example_row (\<lambda>y. 12) 2021 12 (6 / 10), example_row (\<lambda>y. 12) 2022 11 (55 / 100)]"
    by (simp add: filter_course_period_def example_table_def example_row_def)
  have some: "\<exists>r \<in> set (example_table (\<lambda>y. 12)). course_id r = ''C1'' \<and> 2021 \<le> ano r \<and> ano r \<le> 2022"
    by (simp add: example_table_def example_row_def)
  have none: "\<forall>r \<in> set (example_table (\<lambda>y. 12)). \<not> (course_id r = ''C2'' \<and> 2021 \<le> ano r \<and> ano r \<le> 2022)"
    by (simp add: example_table_def example_row_def)
  note t1 = single_course_filter_sorted[OF refl, of "example_table (\<lambda>y. 12)" "''C1''" 2021 2022
      example_predictions]
  note t2 = single_course_filter_sorted[OF refl, of "example_table (\<lambda>y. 12)" "''C2''" 2021 2022
      example_predictions]
  from t1 have "sorted (map ano (filter_course_period (example_table (\<lambda>y. 12)) ''C1'' (2021, 2022)))"
    by blast
  moreover from t2 none
  have "create_course_evolution_view (example_table (\<lambda>y. 12)) example_predictions ''C2'' (2021, 2022) =
        Inr [St_warning No_course_data]"
    by blast
  moreover from t1 some
  have "\<exists>m. create_course_evolution_view (example_table (\<lambda>y. 12)) example_predictions ''C1'' (2021, 2022) =
            Inr [Course_header ''Course 1'' (Some ''U'') (Some ''F''),
                 Metric_columns m,
                 Line_chart [(2021, 12), (2022, 11)],
                 Line_chart [(2021, 12), (2022, 12)],
                 Detail_table (create_detailed_table
                   [example_row (\<lambda>y. 12) 2021 12 (6 / 10), example_row (\<lambda>y. 12) 2022 11 (55 / 100)])]"
    unfolding cd by (auto simp: example_row_def)
  ultimately show ?thesis using cd by blast
qed










section \<open>Occupancy percentage\<close>






section \<open>Properties of the comparison summary\<close>

lemma summary_blocks_given:
  "\<forall>y \<in> set ys. year_summary df p cs y = Inr (block y) \<Longrightarrow>
     summary_blocks df p cs acc ys = Inr (acc @ map block ys)"
  by (induction ys arbitrary: acc) simp_all

lemma summary_blocks_Inr:
  "summary_blocks df p cs acc ys = Inr dfs \<Longrightarrow>
     (\<forall>y \<in> set ys. \<exists>b. year_summary df p cs y = Inr b) \<and>
     dfs = acc @ map (\<lambda>y. projr (year_summary df p cs y)) ys"
proof (induction ys arbitrary: acc)
  case Nil
  then show ?case by simp
next
  case (Cons y ys)
  then obtain b where b: "year_summary df p cs y = Inr b"
    by (cases "year_summary df p cs y") auto
  with Cons.prems have "summary_blocks df p cs (acc @ [b]) ys = Inr dfs" by simp
  from Cons.IH[OF this] b show ?case by simp
qed

lemma summary_blocks_Inl:
  "year_summary df p cs y = Inl e \<Longrightarrow> y \<in> set ys \<Longrightarrow>
     \<exists>e'. summary_blocks df p cs acc ys = Inl e'"
proof (induction ys arbitrary: acc)
  case Nil
  then show ?case by simp
next
  case (Cons z zs)
  show ?case
  proof (cases "year_summary df p cs z")
    case (Inl e')
    then show ?thesis by simp
  next
    case (Inr b)
    with Cons.prems have "y \<in> set zs" by auto
    from Cons.IH[OF Cons.prems(1) this] Inr show ?thesis by simp
  qed
qed

text \<open>
  Claim C8. The comparison summary handles the requested years in the order the caller
  gave them and never sorts them: when every year's pass yields its block of rows, the
  result is the concatenation of those blocks in the order of the list (and nothing at
  all for an empty list); conversely the rows of any result are that concatenation; and
  the summary raises as soon as the pass of one year does.
\<close>

theorem summary_in_caller_order:
  "((\<forall>y \<in> set selected_years. year_summary df predictions selected_courses y = Inr (block y)) \<longrightarrow>
      create_comparison_summary df predictions selected_courses selected_years =
        Inr (if selected_years = [] then None else Some (concat (map block selected_years))))
   \<and> (create_comparison_summary df predictions selected_courses selected_years = Inr (Some rows) \<longrightarrow>
        (\<forall>y \<in> set selected_years. \<exists>b. year_summary df predictions selected_courses y = Inr b) \<and>
        rows = concat (map (\<lambda>y. projr (year_summary df predictions selected_courses y)) selected_years))
   \<and> ((\<exists>y \<in> set selected_years. \<exists>e. year_summary df predictions selected_courses y = Inl e) \<longrightarrow>
        (\<exists>e. create_comparison_summary df predictions selected_courses selected_years = Inl e))"
proof (intro conjI impI)
  assume "\<forall>y \<in> set selected_years. year_summary df predictions selected_courses y = Inr (block y)"
  from summary_blocks_given[OF this, of "[]"]
  show "create_comparison_summary df predictions selected_courses selected_years =
        Inr (if selected_years = [] then None else Some (concat (map block selected_years)))"
    by (simp add: create_comparison_summary_def)
next
  assume a: "create_comparison_summary df predictions selected_courses selected_years = Inr (Some rows)"
  then obtain dfs where dfs: "summary_blocks df predictions selected_courses [] selected_years = Inr dfs"
    and rows: "rows = concat dfs"
    by (auto simp: create_comparison_summary_def split: sum.splits if_splits)
  from summary_blocks_Inr[OF dfs] rows
  show "\<forall>y \<in> set selected_years. \<exists>b. year_summary df predictions selected_courses y = Inr b"
    and "rows = concat (map (\<lambda>y. projr (year_summary df predictions selected_courses y)) selected_years)"
    by simp_all
next
  assume "\<exists>y \<in> set selected_years. \<exists>e. year_summary df predictions selected_courses y = Inl e"
  then obtain y e where "y \<in> set selected_years" "year_summary df predictions selected_courses y = Inl e"
    by blast
  from summary_blocks_Inl[OF this(2,1), of "[]"]
  show "\<exists>e. create_comparison_summary df predictions selected_courses selected_years = Inl e"
    by (auto simp: create_comparison_summary_def)
qed

theorem summary_in_caller_order_witness:
  "create_comparison_summary (example_table (\<lambda>y. 12)) example_predictions [''C1''] [2025, 2023] =
     Inr (Some (projr (year_summary (example_table (\<lambda>y. 12)) example_predictions [''C1''] 2025) @
                projr (year_summary (example_table (\<lambda>y. 12)) example_predictions [''C1''] 2023)))
   \<and> map Ano_resumo (the (projr
         (create_comparison_summary (example_table (\<lambda>y. 12)) example_predictions [''C1''] [2025, 2023]))) =
       [2025, 2023]
   \<and> map Ano_resumo (the (projr
         (create_comparison_summary (example_table (\<lambda>y. 12)) example_predictions [''C1''] [2023, 2025]))) =
       [2023, 2025]"
proof -
  let ?T = "example_table (\<lambda>y. 12)"
  let ?block = "\<lambda>y. projr (year_summary ?T example_predictions [''C1''] y)"
  have f: "year_summary ?T example_predictions [''C1''] 2025 = Inr (?block 2025)"
    by code_simp
  have h: "year_summary ?T example_predictions [''C1''] 2023 = Inr (?block 2023)"
    by code_simp
  have af: "map Ano_resumo (?block 2025) = [2025]" by code_simp
  have ah: "map Ano_resumo (?block 2023) = [2023]" by code_simp
  have 1: "\<forall>y \<in> set [2025, 2023]. year_summary ?T example_predictions [''C1''] y = Inr (?block y)"
    using f h by (intro ballI) (auto simp only: set_simps insert_iff empty_iff)
  have 2: "\<forall>y \<in> set [2023, 2025]. year_summary ?T example_predictions [''C1''] y = Inr (?block y)"
    using f h by (intro ballI) (auto simp only: set_simps insert_iff empty_iff)
  note t1 = summary_in_caller_order[of "[2025, 2023]" ?T example_predictions "[''C1'']" ?block,
      THEN conjunct1, THEN mp, OF 1]
  note t2 = summary_in_caller_order[of "[2023, 2025]" ?T example_predictions "[''C1'']" ?block,
      THEN conjunct1, THEN mp, OF 2]
  have r1: "create_comparison_summary ?T example_predictions [''C1''] [2025, 2023] =
      Inr (Some (?block 2025 @ ?block 2023))"
    unfolding t1 by simp
  have r2: "create_comparison_summary ?T example_predictions [''C1''] [2023, 2025] =
      Inr (Some (?block 2023 @ ?block 2025))"
    unfolding t2 by simp
  show ?thesis
    unfolding r1 r2 using af ah by simp
qed

section \<open>Forecast rows\<close>


lemma has_prediction_filter:
  "(filter (\<lambda>x. pred_course_id x = c) p \<noteq> []) = (\<exists>q \<in> set p. pred_course_id q = c)"
  by (auto simp: filter_empty_conv)

lemma forecast_summary_total:
  "\<forall>c \<in> set cs. (\<exists>q \<in> set p. pred_course_id q = c) \<longrightarrow> (\<exists>h \<in> set df. course_id h = c) \<Longrightarrow>
     \<exists>rows. forecast_summary df p acc cs = Inr rows"
proof (induction cs arbitrary: acc)
  case Nil
  then show ?case by simp
next
  case (Cons c cs)
  then have IH: "\<And>acc. \<exists>rows. forecast_summary df p acc cs = Inr rows"
    by simp
  show ?case
  proof (cases "filter (\<lambda>x. pred_course_id x = c) p = []")
    case True
    with IH show ?thesis by simp
  next
    case False
    then obtain q qs where q: "filter (\<lambda>x. pred_course_id x = c) p = q # qs"
      by (cases "filter (\<lambda>x. pred_course_id x = c) p") auto
    from False have "\<exists>q \<in> set p. pred_course_id q = c"
      by (simp only: has_prediction_filter)
    with Cons.prems have "\<exists>h \<in> set df. course_id h = c" by simp
    then have "filter (\<lambda>r. course_id r = c) df \<noteq> []"
      by (simp add: filter_empty_conv)
    then obtain h hs where h: "filter (\<lambda>r. course_id r = c) df = h # hs"
      by (cases "filter (\<lambda>r. course_id r = c) df") auto
    from q h IH show ?thesis by simp
  qed
qed







section \<open>Properties of the comparison chart\<close>

lemma Set1_length: "length Set1 = 9"
  by (simp add: Set1_def)

lemma Set1_distinct: "distinct Set1"
  by (simp add: Set1_def)

lemma max_year_attained:
  assumes "xs \<noteq> []"
  shows "\<exists>r1 rest. filter (\<lambda>r. ano r = Max (set (map ano xs))) xs = r1 # rest \<and>
           r1 \<in> set xs \<and> ano r1 = Max (set (map ano xs)) \<and> (\<forall>r' \<in> set xs. ano r' \<le> ano r1)"
proof -
  let ?m = "Max (set (map ano xs))"
  have "?m \<in> set (map ano xs)"
    using assms by (intro Max_in) simp_all
  then obtain r where "r \<in> set xs" "ano r = ?m"
    by auto
  then have "filter (\<lambda>r. ano r = ?m) xs \<noteq> []"
    by (auto simp: filter_empty_conv)
  then obtain r1 rest where r1: "filter (\<lambda>r. ano r = ?m) xs = r1 # rest"
    by (cases "filter (\<lambda>r. ano r = ?m) xs") auto
  then have "r1 \<in> set (filter (\<lambda>r. ano r = ?m) xs)" by simp
  then have mem: "r1 \<in> set xs" "ano r1 = ?m" by auto
  have "\<forall>r' \<in> set xs. ano r' \<le> ano r1"
  proof
    fix r' assume "r' \<in> set xs"
    then have "ano r' \<in> set (map ano xs)" by simp
    then have "ano r' \<le> ?m" by (intro Max_ge) simp_all
    then show "ano r' \<le> ano r1" by (simp only: mem)
  qed
  with r1 mem show ?thesis by blast
qed

text \<open>What one pass adds: the historical line, and the forecast segment after it when
  the course has a prediction.\<close>

lemma course_traces_Inr:
  assumes "course_traces h p y n c = Inr added"
  shows "\<exists>r0 rs r.
     filter (\<lambda>r. course_id r = c) h = r0 # rs \<and>
     r \<in> set h \<and> course_id r = c \<and> (\<forall>r' \<in> set h. course_id r' = c \<longrightarrow> ano r' \<le> ano r) \<and>
     added =
       \<lparr>trace_x = map ano (r0 # rs), trace_y = map (column y) (r0 # rs), trace_name = curso r0,
        trace_color = Set1 ! (n mod length Set1), trace_dotted = False\<rparr> #
       (case filter (\<lambda>q. pred_course_id q = c) p of
          [] \<Rightarrow> []
        | q # _ \<Rightarrow>
            [\<lparr>trace_x = [ano r, 2025], trace_y = [column y r, prediction_column y q],
              trace_name = curso r0 @ '' ('' @ Previsao @ '')'',
              trace_color = Set1 ! (n mod length Set1), trace_dotted = True\<rparr>])"
proof -
  from assms obtain r0 rs where cd: "filter (\<lambda>r. course_id r = c) h = r0 # rs"
    by (cases "filter (\<lambda>r. course_id r = c) h") (auto simp: course_traces_def)
  define xs where "xs = r0 # rs"
  have xs: "filter (\<lambda>r. course_id r = c) h = xs" "xs \<noteq> []"
    by (simp_all add: cd xs_def)
  from max_year_attained[OF xs(2)] obtain r1 rest where
    r1: "filter (\<lambda>r. ano r = Max (set (map ano xs))) xs = r1 # rest"
    and in_xs: "r1 \<in> set xs" and yr: "ano r1 = Max (set (map ano xs))"
    and top_xs: "\<forall>r' \<in> set xs. ano r' \<le> ano r1"
    by blast
  from in_xs have "r1 \<in> set (filter (\<lambda>r. course_id r = c) h)"
    by (simp only: xs(1))
  then have mem: "r1 \<in> set h" "course_id r1 = c" by auto
  have top: "\<forall>r' \<in> set h. course_id r' = c \<longrightarrow> ano r' \<le> ano r1"
  proof (intro ballI impI)
    fix r' assume "r' \<in> set h" "course_id r' = c"
    then have "r' \<in> set (filter (\<lambda>r. course_id r = c) h)" by simp
    then have "r' \<in> set xs" by (simp only: xs(1))
    with top_xs show "ano r' \<le> ano r1" by blast
  qed
  have "course_traces h p y n c =
      (case filter (\<lambda>q. pred_course_id q = c) p of
         [] \<Rightarrow> Inr [\<lparr>trace_x = map ano xs, trace_y = map (column y) xs, trace_name = curso r0,
                   trace_color = Set1 ! (n mod length Set1), trace_dotted = False\<rparr>]
       | q # _ \<Rightarrow>
           Inr [\<lparr>trace_x = map ano xs, trace_y = map (column y) xs, trace_name = curso r0,
                  trace_color = Set1 ! (n mod length Set1), trace_dotted = False\<rparr>,
                \<lparr>trace_x = [ano r1, 2025], trace_y = [column y r1, prediction_column y q],
                  trace_name = curso r0 @ '' ('' @ Previsao @ '')'',
                  trace_color = Set1 ! (n mod length Set1), trace_dotted = True\<rparr>])"
    unfolding course_traces_def Let_def cd list.case
    unfolding xs_def[symmetric] r1 list.case yr ..
  with assms have "added =
       \<lparr>trace_x = map ano xs, trace_y = map (column y) xs, trace_name = curso r0,
        trace_color = Set1 ! (n mod length Set1), trace_dotted = False\<rparr> #
       (case filter (\<lambda>q. pred_course_id q = c) p of
          [] \<Rightarrow> []
        | q # _ \<Rightarrow>
            [\<lparr>trace_x = [ano r1, 2025], trace_y = [column y r1, prediction_column y q],
              trace_name = curso r0 @ '' ('' @ Previsao @ '')'',
              trace_color = Set1 ! (n mod length Set1), trace_dotted = True\<rparr>])"
    by (auto split: list.splits)
  with cd mem top show ?thesis unfolding xs_def by blast
qed

lemma course_traces_total:
  assumes "\<exists>r \<in> set h. course_id r = c"
  shows "\<exists>added. course_traces h p y n c = Inr added"
proof -
  from assms have "filter (\<lambda>r. course_id r = c) h \<noteq> []"
    by (simp add: filter_empty_conv)
  then obtain r0 rs where cd: "filter (\<lambda>r. course_id r = c) h = r0 # rs"
    by (cases "filter (\<lambda>r. course_id r = c) h") auto
  define xs where "xs = r0 # rs"
  have "xs \<noteq> []" by (simp add: xs_def)
  from max_year_attained[OF this] obtain r1 rest where
    r1: "filter (\<lambda>r. ano r = Max (set (map ano xs))) xs = r1 # rest"
    by blast
  show ?thesis
    unfolding course_traces_def Let_def cd list.case
    unfolding xs_def[symmetric] r1 list.case
    by (cases "filter (\<lambda>pa. pred_course_id pa = c) p") simp_all
qed

lemma comparison_traces_total:
  "\<forall>c \<in> set cs. \<exists>r \<in> set h. course_id r = c \<Longrightarrow>
     \<exists>fig'. comparison_traces h p y fig cs = Inr fig'"
proof (induction cs arbitrary: fig)
  case Nil
  then show ?case by simp
next
  case (Cons c cs)
  then have "\<exists>r \<in> set h. course_id r = c" by simp
  from course_traces_total[OF this, of p y "length fig"] obtain added where
    "course_traces h p y (length fig) c = Inr added" by blast
  moreover from Cons have "\<exists>fig'. comparison_traces h p y (fig @ added) cs = Inr fig'" by simp
  ultimately show ?case by simp
qed

lemma comparison_traces_step:
  assumes "comparison_traces h p y fig (c # cs) = Inr fig'"
  obtains added where "course_traces h p y (length fig) c = Inr added"
    and "comparison_traces h p y (fig @ added) cs = Inr fig'"
  using assms by (cases "course_traces h p y (length fig) c") auto

lemma comparison_traces_prefix:
  "comparison_traces h p y fig cs = Inr fig' \<Longrightarrow> \<exists>ts. fig' = fig @ ts"
proof (induction cs arbitrary: fig)
  case Nil
  then show ?case by simp
next
  case (Cons c cs)
  from Cons.prems obtain added where "comparison_traces h p y (fig @ added) cs = Inr fig'"
    by (rule comparison_traces_step)
  from Cons.IH[OF this] show ?case by auto
qed

text \<open>
  Every trace that the loop adds: a historical line has the colour of its position and
  the series of a selected course; a forecast segment comes right after the historical
  line of its course, in the same colour, and starts at that line's last year.
\<close>

lemma comparison_traces_added:
  assumes "comparison_traces h p y fig cs = Inr fig'" and "length fig \<le> i" and "i < length fig'"
  shows "(\<not> trace_dotted (fig' ! i) \<longrightarrow>
            trace_color (fig' ! i) = Set1 ! (i mod length Set1) \<and>
            i + 2 \<le> length fig + 2 * length cs \<and>
            (\<exists>c \<in> set cs.
               trace_x (fig' ! i) = map ano (filter (\<lambda>r. course_id r = c) h) \<and>
               trace_y (fig' ! i) = map (column y) (filter (\<lambda>r. course_id r = c) h)))
       \<and> (trace_dotted (fig' ! i) \<longrightarrow>
            length fig < i \<and> \<not> trace_dotted (fig' ! (i - 1)) \<and>
            trace_color (fig' ! i) = trace_color (fig' ! (i - 1)) \<and>
            trace_name (fig' ! i) = trace_name (fig' ! (i - 1)) @ '' ('' @ Previsao @ '')'' \<and>
            (\<exists>c \<in> set cs. \<exists>q qs. \<exists>r \<in> set h.
               filter (\<lambda>x. pred_course_id x = c) p = q # qs \<and>
               course_id r = c \<and> (\<forall>r' \<in> set h. course_id r' = c \<longrightarrow> ano r' \<le> ano r) \<and>
               trace_x (fig' ! i) = [ano r, 2025] \<and>
               trace_y (fig' ! i) = [column y r, prediction_column y q] \<and>
               trace_x (fig' ! (i - 1)) = map ano (filter (\<lambda>r. course_id r = c) h) \<and>
               trace_y (fig' ! (i - 1)) = map (column y) (filter (\<lambda>r. course_id r = c) h)))"
  using assms
proof (induction cs arbitrary: fig)
  case Nil
  then show ?case by simp
next
  case (Cons c cs)
  from Cons.prems(1) obtain added where added: "course_traces h p y (length fig) c = Inr added"
    and rest: "comparison_traces h p y (fig @ added) cs = Inr fig'"
    by (rule comparison_traces_step)
  from comparison_traces_prefix[OF rest] obtain ts where fig': "fig' = (fig @ added) @ ts"
    by blast
  from course_traces_Inr[OF added] obtain r0 rs r where
    cd: "filter (\<lambda>r. course_id r = c) h = r0 # rs"
    and r: "r \<in> set h" "course_id r = c" "\<forall>r' \<in> set h. course_id r' = c \<longrightarrow> ano r' \<le> ano r"
    and shape: "added =
       \<lparr>trace_x = map ano (r0 # rs), trace_y = map (column y) (r0 # rs), trace_name = curso r0,
        trace_color = Set1 ! (length fig mod length Set1), trace_dotted = False\<rparr> #
       (case filter (\<lambda>q. pred_course_id q = c) p of
          [] \<Rightarrow> []
        | q # _ \<Rightarrow>
            [\<lparr>trace_x = [ano r, 2025], trace_y = [column y r, prediction_column y q],
              trace_name = curso r0 @ '' ('' @ Previsao @ '')'',
              trace_color = Set1 ! (length fig mod length Set1), trace_dotted = True\<rparr>])"
    by blast
  show ?case
  proof (cases "i < length (fig @ added)")
    case False
    then have le: "length (fig @ added) \<le> i" by simp
    have len: "length added \<le> 2"
      unfolding shape by (simp split: list.splits)
    from Cons.IH[OF rest le Cons.prems(3)] len show ?thesis
      by (auto simp del: One_nat_def)
  next
    case True
    then have here: "fig' ! i = added ! (i - length fig)" and rel: "i - length fig < length added"
      using Cons.prems(2) unfolding fig' by (simp_all add: nth_append)
    show ?thesis
    proof (cases "i = length fig")
      case True
      with here have "fig' ! i =
         \<lparr>trace_x = map ano (r0 # rs), trace_y = map (column y) (r0 # rs), trace_name = curso r0,
          trace_color = Set1 ! (length fig mod length Set1), trace_dotted = False\<rparr>"
        unfolding shape by simp
      with True cd show ?thesis by simp
    next
      case False
      with Cons.prems(2) have gt: "length fig < i" by simp
      from rel gt obtain q qs where q: "filter (\<lambda>q. pred_course_id q = c) p = q # qs"
        unfolding shape by (cases "filter (\<lambda>q. pred_course_id q = c) p") auto
      from rel gt have i: "i = Suc (length fig)"
        unfolding shape q by simp
      have cur: "fig' ! i =
          \<lparr>trace_x = [ano r, 2025], trace_y = [column y r, prediction_column y q],
            trace_name = curso r0 @ '' ('' @ Previsao @ '')'',
            trace_color = Set1 ! (length fig mod length Set1), trace_dotted = True\<rparr>"
        using here unfolding shape q i by simp
      have prev: "fig' ! (i - 1) =
         \<lparr>trace_x = map ano (r0 # rs), trace_y = map (column y) (r0 # rs), trace_name = curso r0,
          trace_color = Set1 ! (length fig mod length Set1), trace_dotted = False\<rparr>"
        unfolding fig' shape i by (simp add: nth_append)
      have "\<exists>c' \<in> set (c # cs). \<exists>q qs. \<exists>r \<in> set h.
               filter (\<lambda>x. pred_course_id x = c') p = q # qs \<and>
               course_id r = c' \<and> (\<forall>r' \<in> set h. course_id r' = c' \<longrightarrow> ano r' \<le> ano r) \<and>
               trace_x (fig' ! i) = [ano r, 2025] \<and>
               trace_y (fig' ! i) = [column y r, prediction_column y q] \<and>
               trace_x (fig' ! (i - 1)) = map ano (filter (\<lambda>r. course_id r = c') h) \<and>
               trace_y (fig' ! (i - 1)) = map (column y) (filter (\<lambda>r. course_id r = c') h)"
        unfolding cur prev using q r cd
        by (intro bexI[of _ c] exI[of _ q] exI[of _ qs] bexI[of _ r]) simp_all
      then show ?thesis
        using gt unfolding cur prev by simp
    qed
  qed
qed

lemma comparison_traces_lines:
  "comparison_traces h p y fig cs = Inr fig' \<Longrightarrow>
     map trace_x (filter (\<lambda>t. \<not> trace_dotted t) fig') =
       map trace_x (filter (\<lambda>t. \<not> trace_dotted t) fig) @
       map (\<lambda>c. map ano (filter (\<lambda>r. course_id r = c) h)) cs"
proof (induction cs arbitrary: fig)
  case Nil
  then show ?case by simp
next
  case (Cons c cs)
  from Cons.prems obtain added where added: "course_traces h p y (length fig) c = Inr added"
    and rest: "comparison_traces h p y (fig @ added) cs = Inr fig'"
    by (rule comparison_traces_step)
  from course_traces_Inr[OF added] obtain r0 rs r where
    cd: "filter (\<lambda>r. course_id r = c) h = r0 # rs"
    and shape: "added =
       \<lparr>trace_x = map ano (r0 # rs), trace_y = map (column y) (r0 # rs), trace_name = curso r0,
        trace_color = Set1 ! (length fig mod length Set1), trace_dotted = False\<rparr> #
       (case filter (\<lambda>q. pred_course_id q = c) p of
          [] \<Rightarrow> []
        | q # _ \<Rightarrow>
            [\<lparr>trace_x = [ano r, 2025], trace_y = [column y r, prediction_column y q],
              trace_name = curso r0 @ '' ('' @ Previsao @ '')'',
              trace_color = Set1 ! (length fig mod length Set1), trace_dotted = True\<rparr>])"
    by blast
  have "map trace_x (filter (\<lambda>t. \<not> trace_dotted t) added) =
          [map ano (filter (\<lambda>r. course_id r = c) h)]"
    unfolding shape cd by (cases "filter (\<lambda>q. pred_course_id q = c) p") simp_all
  with Cons.IH[OF rest] show ?case by simp
qed


lemma distinct_map_filter_nth:
  "(\<And>i j. i < j \<Longrightarrow> j < length xs \<Longrightarrow> P (xs ! i) \<Longrightarrow> P (xs ! j) \<Longrightarrow> f (xs ! i) \<noteq> f (xs ! j)) \<Longrightarrow>
     distinct (map f (filter P xs))"
proof (induction xs)
  case Nil
  then show ?case by simp
next
  case (Cons x xs)
  have tail: "distinct (map f (filter P xs))"
  proof (rule Cons.IH)
    fix i j assume "i < j" "j < length xs" "P (xs ! i)" "P (xs ! j)"
    then show "f (xs ! i) \<noteq> f (xs ! j)"
      using Cons.prems[of "Suc i" "Suc j"] by simp
  qed
  have "f x \<notin> f ` set (filter P xs)" if "P x"
  proof
    assume "f x \<in> f ` set (filter P xs)"
    then obtain z where z: "z \<in> set xs" "P z" "f x = f z" by auto
    then obtain k where k: "k < length xs" "xs ! k = z"
      by (auto simp: in_set_conv_nth)
    from Cons.prems[of 0 "Suc k"] k z that show False by simp
  qed
  with tail show ?case by simp
qed

lemma Set1_nth_neq: "i < j \<Longrightarrow> j < length Set1 \<Longrightarrow> Set1 ! i \<noteq> Set1 ! j"
  using Set1_distinct by (simp add: nth_eq_iff_index_eq)



text \<open>
  Claim C9, as the code has it. In the chart of one run every forecast segment follows a
  historical line and has that line's colour. A historical line drawn at position \<open>i\<close> of
  the figure, forecast segments counted, has the colour \<open>i mod 9\<close> of the palette. The
  historical lines are those of the selected courses, one each, in the order of the
  selection. Their colours are pairwise different when the figure has at most nine traces
  or at most five courses are selected.
\<close>

theorem palette_by_position:
  "create_comparison_chart historical_data predictions selected_courses y_column = Inr fig \<longrightarrow>
     (\<forall>i < length fig. trace_dotted (fig ! i) \<longrightarrow>
        0 < i \<and> \<not> trace_dotted (fig ! (i - 1)) \<and>
        trace_color (fig ! i) = trace_color (fig ! (i - 1)))
     \<and> (\<forall>i < length fig. \<not> trace_dotted (fig ! i) \<longrightarrow>
          trace_color (fig ! i) = Set1 ! (i mod length Set1))
     \<and> map trace_x (filter (\<lambda>t. \<not> trace_dotted t) fig) =
          map (\<lambda>c. map ano (filter (\<lambda>r. course_id r = c) historical_data)) selected_courses
     \<and> (length fig \<le> length Set1 \<or> length selected_courses \<le> 5 \<longrightarrow>
          distinct (map trace_color (filter (\<lambda>t. \<not> trace_dotted t) fig)))"
proof
  assume chart: "create_comparison_chart historical_data predictions selected_courses y_column = Inr fig"
  then have loop: "comparison_traces historical_data predictions y_column [] selected_courses = Inr fig"
    by (simp add: create_comparison_chart_def)
  note added = comparison_traces_added[OF loop]
  have a: "\<forall>i < length fig. trace_dotted (fig ! i) \<longrightarrow>
        0 < i \<and> \<not> trace_dotted (fig ! (i - 1)) \<and>
        trace_color (fig ! i) = trace_color (fig ! (i - 1))"
  proof (intro allI impI)
    fix i assume i: "i < length fig" and d: "trace_dotted (fig ! i)"
    from added[OF _ i, THEN conjunct2, THEN mp, OF _ d]
    show "0 < i \<and> \<not> trace_dotted (fig ! (i - 1)) \<and>
        trace_color (fig ! i) = trace_color (fig ! (i - 1))"
      by simp
  qed
  have b: "\<forall>i < length fig. \<not> trace_dotted (fig ! i) \<longrightarrow>
          trace_color (fig ! i) = Set1 ! (i mod length Set1)"
  proof (intro allI impI)
    fix i assume i: "i < length fig" and d: "\<not> trace_dotted (fig ! i)"
    from added[OF _ i, THEN conjunct1, THEN mp, OF _ d]
    show "trace_color (fig ! i) = Set1 ! (i mod length Set1)"
      by simp
  qed
  have c: "map trace_x (filter (\<lambda>t. \<not> trace_dotted t) fig) =
          map (\<lambda>c. map ano (filter (\<lambda>r. course_id r = c) historical_data)) selected_courses"
    using comparison_traces_lines[OF loop] by simp
  have d: "distinct (map trace_color (filter (\<lambda>t. \<not> trace_dotted t) fig))"
    if few: "length fig \<le> length Set1 \<or> length selected_courses \<le> 5"
  proof (rule distinct_map_filter_nth)
    fix i j assume ij: "i < j" and j: "j < length fig"
      and di: "\<not> trace_dotted (fig ! i)" and dj: "\<not> trace_dotted (fig ! j)"
    from ij j have i: "i < length fig" by simp
    from added[OF _ j, THEN conjunct1, THEN mp, OF _ dj]
    have "j + 2 \<le> 2 * length selected_courses" by simp
    with few j have j9: "j < length Set1"
      by (auto simp: Set1_length)
    with ij have i9: "i < length Set1" by simp
    from b i di have "trace_color (fig ! i) = Set1 ! i" using i9 by simp
    moreover from b j dj have "trace_color (fig ! j) = Set1 ! j" using j9 by simp
    ultimately show "trace_color (fig ! i) \<noteq> trace_color (fig ! j)"
      using Set1_nth_neq[OF ij j9] by simp
  qed
  from a b c d show "(\<forall>i < length fig. trace_dotted (fig ! i) \<longrightarrow>
        0 < i \<and> \<not> trace_dotted (fig ! (i - 1)) \<and>
        trace_color (fig ! i) = trace_color (fig ! (i - 1)))
     \<and> (\<forall>i < length fig. \<not> trace_dotted (fig ! i) \<longrightarrow>
          trace_color (fig ! i) = Set1 ! (i mod length Set1))
     \<and> map trace_x (filter (\<lambda>t. \<not> trace_dotted t) fig) =
          map (\<lambda>c. map ano (filter (\<lambda>r. course_id r = c) historical_data)) selected_courses
     \<and> (length fig \<le> length Set1 \<or> length selected_courses \<le> 5 \<longrightarrow>
          distinct (map trace_color (filter (\<lambda>t. \<not> trace_dotted t) fig)))"
    by (intro conjI impI) assumption+
qed

theorem palette_by_position_witness:
  "\<exists>fig. create_comparison_chart six_history six_predictions [''A'', ''E''] Y_colocados = Inr fig
     \<and> map trace_dotted fig = [False, True, False]
     \<and> trace_color (fig ! 1) = trace_color (fig ! 0)
     \<and> trace_color (fig ! 0) = Set1 ! 0
     \<and> trace_color (fig ! 2) = Set1 ! 2
     \<and> distinct (map trace_color (filter (\<lambda>t. \<not> trace_dotted t) fig))"
proof -
  let ?chart = "create_comparison_chart six_history six_predictions [''A'', ''E''] Y_colocados"
  have "\<not> isl ?chart" by code_simp
  then have chart: "?chart = Inr (projr ?chart)" by simp
  have d: "map trace_dotted (projr ?chart) = [False, True, False]" by code_simp
  then have len: "length (projr ?chart) = 3"
    by (metis length_map length_Cons list.size(3) numeral_3_eq_3)
  from d have d0: "\<not> trace_dotted (projr ?chart ! 0)" and d1: "trace_dotted (projr ?chart ! 1)"
    and d2: "\<not> trace_dotted (projr ?chart ! 2)"
    using len by (metis nth_map nth_Cons_0 zero_less_numeral,
      metis nth_map nth_Cons_0 nth_Cons_Suc One_nat_def one_less_numeral_iff semiring_norm(77),
      metis nth_map nth_Cons_0 nth_Cons_Suc numeral_2_eq_2 lessI numeral_3_eq_3)
  note t = palette_by_position[of six_history six_predictions "[''A'', ''E'']" Y_colocados
      "projr ?chart", THEN mp, OF chart]
  have two: "length [''A'', ''E''] \<le> (5::nat)" by simp
  from t have "trace_color (projr ?chart ! 1) = trace_color (projr ?chart ! (1 - 1))"
    using d1 len by simp
  then have c1: "trace_color (projr ?chart ! 1) = trace_color (projr ?chart ! 0)" by simp
  from t have c0: "trace_color (projr ?chart ! 0) = Set1 ! 0"
    using d0 len by (simp add: Set1_length)
  from t have c2: "trace_color (projr ?chart ! 2) = Set1 ! 2"
    using d2 len by (simp add: Set1_length)
  from t two have c3: "distinct (map trace_color (filter (\<lambda>t. \<not> trace_dotted t) (projr ?chart)))"
    by blast
  show ?thesis
    by (intro exI[of _ "projr ?chart"] conjI) (rule chart d c1 c0 c2 c3)+
qed

text \<open>
  With six selected courses of which the first four have a prediction, nine traces are
  drawn before the line of the sixth course, which so gets the colour of the first.
\<close>

theorem palette_clash_counterexample:
  "\<not> isl (create_comparison_chart six_history six_predictions six_courses Y_colocados)
   \<and> map trace_dotted (projr (create_comparison_chart six_history six_predictions six_courses Y_colocados)) =
       [False, True, False, True, False, True, False, True, False, False]
   \<and> trace_name (projr (create_comparison_chart six_history six_predictions six_courses Y_colocados) ! 0) = ''A''
   \<and> trace_name (projr (create_comparison_chart six_history six_predictions six_courses Y_colocados) ! 9) = ''F''
   \<and> trace_color (projr (create_comparison_chart six_history six_predictions six_courses Y_colocados) ! 0) =
     trace_color (projr (create_comparison_chart six_history six_predictions six_courses Y_colocados) ! 9)
   \<and> distinct six_courses"
  by code_simp

lemma create_comparison_summary_total:
  assumes "\<forall>c \<in> set cs. (\<exists>q \<in> set p. pred_course_id q = c) \<longrightarrow> (\<exists>h \<in> set df. course_id h = c)"
  shows "\<exists>result. create_comparison_summary df p cs ys = Inr result"
proof -
  have "\<forall>y \<in> set ys. year_summary df p cs y = Inr (projr (year_summary df p cs y))"
  proof
    fix y
    show "year_summary df p cs y = Inr (projr (year_summary df p cs y))"
    proof (cases "y = 2025")
      case True
      from forecast_summary_total[OF assms, of "[]"] True show ?thesis
        by (auto simp: year_summary_def)
    next
      case False
      then show ?thesis by (simp add: year_summary_def)
    qed
  qed
  from summary_blocks_given[OF this, of "[]"] show ?thesis
    by (simp add: create_comparison_summary_def)
qed

text \<open>
  With a historical row for every selected course, the comparison view raises nothing.
\<close>

lemma create_course_comparison_view_total:
  assumes "\<forall>c \<in> set selected_courses. \<exists>r \<in> set df. course_id r = c"
  shows "\<exists>shown. create_course_comparison_view df selected_courses predictions years_picked = Inr shown"
proof -
  define historical_data where
    "historical_data = filter (\<lambda>r. course_id r \<in> set selected_courses) df"
  show ?thesis
  proof (cases "historical_data = []")
    case True
    then show ?thesis
      by (simp add: create_course_comparison_view_def historical_data_def)
  next
    case False
    have rows: "\<forall>c \<in> set selected_courses. \<exists>r \<in> set historical_data. course_id r = c"
      using assms by (auto simp: historical_data_def)
    from comparison_traces_total[OF rows] obtain fig1 fig2 where
      fig1: "create_comparison_chart historical_data predictions selected_courses Y_colocados = Inr fig1"
      and fig2: "create_comparison_chart historical_data predictions selected_courses
                   Y_nota_ultimo_colocado = Inr fig2"
      unfolding create_comparison_chart_def by blast
    from False have "set (rev (sort (unique (map ano historical_data)))) \<noteq> {}"
      by (simp add: unique_set)
    then obtain y0 ys where years: "rev (sort (unique (map ano historical_data))) = y0 # ys"
      by (cases "rev (sort (unique (map ano historical_data)))") auto
    have "\<forall>c \<in> set selected_courses.
            (\<exists>q \<in> set predictions. pred_course_id q = c) \<longrightarrow> (\<exists>h \<in> set df. course_id h = c)"
      using assms by blast
    from create_comparison_summary_total[OF this] obtain result where
      "create_comparison_summary df predictions selected_courses
         (multiselect (y0 # ys) [y0] years_picked) = Inr result"
      by blast
    with False fig1 fig2 years show ?thesis
      unfolding create_course_comparison_view_def historical_data_def[symmetric] Let_def
      by (cases result) simp_all
  qed
qed

text \<open>
  Claim C1 says that no path of the comparison raises, also for a selected course without
  historical rows. The comparison view checks only that the selected courses together
  have a row; with one course that has rows and one that has none, the chart raises
  \<^verbatim>\<open>IndexError\<close> at the first \<^verbatim>\<open>iloc[0]\<close> of the pass for the latter, and so does the view.
  The summary of 2025 raises the same way for a course with a prediction and no
  historical row.
\<close>

theorem comparison_raises_without_history:
  "create_course_comparison_view (example_table (\<lambda>y. 12)) [''C1'', ''C2''] example_predictions None =
     Inl IndexError
   \<and> create_comparison_chart (example_table (\<lambda>y. 12)) example_predictions [''C1'', ''C2''] Y_colocados =
     Inl IndexError
   \<and> create_comparison_summary (example_table (\<lambda>y. 12))
       [\<lparr>pred_course_id = ''C2'', colocados_previsto = 15, nota_ultimo_colocado_prevista = 14\<rparr>]
       [''C1'', ''C2''] [2025] = Inl IndexError"
  by code_simp


section \<open>Properties of the selection set\<close>

lemma default_courses_ok:
  "distinct (default_courses df)" "\<forall>c \<in> set (default_courses df). \<exists>r \<in> set df. course_id r = c"
  by (auto simp: default_courses_def unique_distinct unique_set)

lemma selectbox_member:
  "selectbox options 0 pick = Some v \<Longrightarrow> v \<in> set options"
  by (auto simp: selectbox_def Let_def split: option.splits if_splits)

lemma selected_course_known:
  assumes "snd (snd (create_course_selection_ui df user)) = Some c"
  shows "\<exists>r \<in> set df. course_id r = c"
proof -
  from assms obtain P where
    "selectbox (map course_id (sort_key curso (drop_duplicates course_id (filter P df)))) 0
       (pick_course user) = Some c"
    by (simp only: create_course_selection_ui_def Let_def snd_conv)
  then have "c \<in> set (map course_id (sort_key curso (drop_duplicates course_id (filter P df))))"
    by (rule selectbox_member)
  then obtain r where r: "r \<in> set (drop_duplicates course_id (filter P df))" "course_id r = c"
    by auto
  from r(1) have "r \<in> set (filter P df)"
    using drop_duplicates_seen_subset[of "[]" course_id "filter P df"]
    by (auto simp: drop_duplicates_def)
  with r(2) show ?thesis by auto
qed


lemma ui_state:
  "snd (create_course_comparison_ui df c clicked state) =
     Some (if truthy c \<and> the c \<notin> set (initialize df state) \<and> clicked = Add_button
           then initialize df state @ [the c]
           else if initialize df state = [] then []
           else if list_ex (\<lambda>k. filter (\<lambda>r. course_id r = k) df = [])
                     (dict_fromkeys (initialize df state))
           then dict_fromkeys (initialize df state)
           else (case clicked of
                   Remove_button i \<Rightarrow>
                     if i < length (dict_fromkeys (initialize df state))
                     then remove1 (dict_fromkeys (initialize df state) ! i)
                            (dict_fromkeys (initialize df state))
                     else dict_fromkeys (initialize df state)
                 | Clear_button \<Rightarrow> []
                 | _ \<Rightarrow> dict_fromkeys (initialize df state)))"
  by (simp add: create_course_comparison_ui_def Let_def split: click.splits)

lemma known_rows:
  "(\<forall>c \<in> set xs. \<exists>r \<in> set df. course_id r = c) \<Longrightarrow>
     \<not> list_ex (\<lambda>k. filter (\<lambda>r. course_id r = k) df = []) xs"
  by (auto simp: list_ex_iff filter_empty_conv)

text \<open>One run from a list without repetition whose courses all have rows.\<close>

lemma ui_step:
  assumes "distinct (initialize df state)"
    and "\<forall>k \<in> set (initialize df state). \<exists>r \<in> set df. course_id r = k"
  shows "initialize df (snd (create_course_comparison_ui df c clicked state)) =
     (if truthy c \<and> the c \<notin> set (initialize df state) \<and> clicked = Add_button
      then initialize df state @ [the c]
      else (case clicked of
              Remove_button i \<Rightarrow>
                if i < length (initialize df state)
                then remove1 (initialize df state ! i) (initialize df state)
                else initialize df state
            | Clear_button \<Rightarrow> []
            | _ \<Rightarrow> initialize df state))"
proof -
  have d: "dict_fromkeys (initialize df state) = initialize df state"
    by (rule dict_fromkeys_distinct[OF assms(1)])
  have k: "\<not> list_ex (\<lambda>k. filter (\<lambda>r. course_id r = k) df = []) (initialize df state)"
    by (rule known_rows[OF assms(2)])
  show ?thesis
    unfolding ui_state d using k
    by (auto simp: initialize_def split: click.splits)
qed

lemma comparison_tab_state:
  "snd (comparison_tab df predictions user state) =
     snd (create_course_comparison_ui df (snd (snd (create_course_selection_ui df (tab2 user))))
            (clicked_button user) state)"
  by (simp add: comparison_tab_def Let_def split: prod.splits run.splits sum.splits)

lemma ui_step_invariant:
  assumes "distinct (initialize df state)"
    and "\<forall>k \<in> set (initialize df state). \<exists>r \<in> set df. course_id r = k"
    and "c = None \<or> (\<exists>r \<in> set df. course_id r = the c)"
  shows "distinct (initialize df (snd (create_course_comparison_ui df c clicked state)))"
    and "\<forall>k \<in> set (initialize df (snd (create_course_comparison_ui df c clicked state))).
           \<exists>r \<in> set df. course_id r = k"
proof -
  show "distinct (initialize df (snd (create_course_comparison_ui df c clicked state)))"
    unfolding ui_step[OF assms(1,2)] using assms(1)
    by (auto split: click.splits)
  show "\<forall>k \<in> set (initialize df (snd (create_course_comparison_ui df c clicked state))).
           \<exists>r \<in> set df. course_id r = k"
    unfolding ui_step[OF assms(1,2)] using assms(2,3)
    by (auto simp: truthy_def split: click.splits option.splits dest: notin_set_remove1)
qed

lemma comparison_session_invariant:
  assumes "distinct (initialize df state)"
    and "\<forall>k \<in> set (initialize df state). \<exists>r \<in> set df. course_id r = k"
  shows "distinct (initialize df (comparison_session df predictions state users)) \<and>
         (\<forall>k \<in> set (initialize df (comparison_session df predictions state users)).
            \<exists>r \<in> set df. course_id r = k)"
  using assms
proof (induction users arbitrary: state)
  case Nil
  then show ?case by simp
next
  case (Cons user users)
  let ?c = "snd (snd (create_course_selection_ui df (tab2 user)))"
  have c: "?c = None \<or> (\<exists>r \<in> set df. course_id r = the ?c)"
    using selected_course_known[of df "tab2 user"] by (cases ?c) auto
  from ui_step_invariant[OF Cons.prems c, of "clicked_button user"]
  show ?case
    by (simp only: comparison_session.simps comparison_tab_state) (rule Cons.IH)
qed


text \<open>
  In a session over fixed tables the selected courses are courses of the table, so no run
  of the second tab raises.
\<close>

lemma comparison_session_never_raises:
  "fst (comparison_tab df predictions user (comparison_session df predictions None users)) \<noteq> Raised e"
proof -
  let ?state = "comparison_session df predictions None users"
  let ?c = "snd (snd (create_course_selection_ui df (tab2 user)))"
  have init: "distinct (initialize df None)"
    "\<forall>k \<in> set (initialize df None). \<exists>r \<in> set df. course_id r = k"
    using default_courses_ok[of df] by (simp_all add: initialize_def)
  from comparison_session_invariant[OF init, of predictions users]
  have d: "distinct (initialize df ?state)"
    and kn: "\<forall>k \<in> set (initialize df ?state). \<exists>r \<in> set df. course_id r = k"
    by simp_all
  have fk: "dict_fromkeys (initialize df ?state) = initialize df ?state"
    by (rule dict_fromkeys_distinct[OF d])
  have ok: "\<not> list_ex (\<lambda>k. filter (\<lambda>r. course_id r = k) df = []) (initialize df ?state)"
    by (rule known_rows[OF kn])
  from create_course_comparison_view_total[OF kn, of predictions "pick_years user"]
  obtain shown where view: "create_course_comparison_view df (initialize df ?state) predictions
      (pick_years user) = Inr shown"
    by blast
  have "fst (create_course_comparison_ui df ?c (clicked_button user) ?state) = Rerun \<or>
        fst (create_course_comparison_ui df ?c (clicked_button user) ?state) =
          Returned (initialize df ?state)"
    unfolding create_course_comparison_ui_def Let_def fk using ok
    by (auto split: click.splits)
  then show ?thesis
    unfolding comparison_tab_def Let_def using view
    by (auto split: prod.splits run.splits sum.splits)
qed

lemma remove1_distinct_filter:
  assumes "distinct xs"
  shows "filter (\<lambda>k. k \<in> set (remove1 x xs)) xs = remove1 x xs"
proof -
  have "filter (\<lambda>k. k \<in> set (remove1 x xs)) xs = filter (\<lambda>k. x \<noteq> k) xs"
    using assms by (intro filter_cong) auto
  also have "\<dots> = removeAll x xs"
    by (simp add: removeAll_filter_not_eq)
  also have "\<dots> = remove1 x xs"
    using assms by (simp add: distinct_remove1_removeAll)
  finally show ?thesis .
qed

lemma filter_subset_id: "set ys \<subseteq> set xs \<Longrightarrow> filter (\<lambda>k. k \<in> set xs) ys = ys"
  by (auto simp: filter_id_conv)

text \<open>
  Claim C4. After any sequence of interactions of a session, started with no list in the
  session state, the list of selected courses has no repeated identifier. One more run
  keeps it so and keeps the order of the entries that stay: adding a course that is not
  in the list appends it, adding one that is in the list changes nothing, removing the
  entry at a position deletes exactly that entry, clearing empties the list, and a run
  without a click leaves the list as it is.
\<close>

theorem selection_set_invariant:
  assumes "state = comparison_session df predictions None users"
    and "selected = initialize df state"
    and "after = initialize df (snd (create_course_comparison_ui df selected_course clicked state))"
  shows "distinct selected \<and> distinct after
    \<and> filter (\<lambda>k. k \<in> set selected) after = filter (\<lambda>k. k \<in> set after) selected
    \<and> (clicked = Add_button \<and> truthy selected_course \<and> the selected_course \<notin> set selected \<longrightarrow>
         after = selected @ [the selected_course])
    \<and> (clicked = Add_button \<and> selected_course = Some k \<and> k \<in> set selected \<longrightarrow> after = selected)
    \<and> (clicked = Remove_button i \<and> i < length selected \<longrightarrow>
         after = remove1 (selected ! i) selected \<and> selected ! i \<notin> set after \<and>
         length after + 1 = length selected \<and> set after = set selected - {selected ! i})
    \<and> (clicked = Clear_button \<longrightarrow> after = [])
    \<and> (clicked = No_click \<longrightarrow> after = selected)"
proof -
  have init: "distinct (initialize df None)"
    "\<forall>k \<in> set (initialize df None). \<exists>r \<in> set df. course_id r = k"
    using default_courses_ok[of df] by (simp_all add: initialize_def)
  from comparison_session_invariant[OF init, of predictions users]
  have d: "distinct selected" and kn: "\<forall>k \<in> set selected. \<exists>r \<in> set df. course_id r = k"
    unfolding assms(1,2) by simp_all
  have step: "after =
     (if truthy selected_course \<and> the selected_course \<notin> set selected \<and> clicked = Add_button
      then selected @ [the selected_course]
      else (case clicked of
              Remove_button i \<Rightarrow>
                if i < length selected then remove1 (selected ! i) selected else selected
            | Clear_button \<Rightarrow> []
            | _ \<Rightarrow> selected))"
    using ui_step[of df state selected_course clicked] d kn
    unfolding assms(2,3) by simp
  have d': "distinct after"
    unfolding step using d by (auto split: click.splits)
  have order: "filter (\<lambda>k. k \<in> set selected) after = filter (\<lambda>k. k \<in> set after) selected"
  proof (cases "truthy selected_course \<and> the selected_course \<notin> set selected \<and> clicked = Add_button")
    case True
    then show ?thesis unfolding step by (simp add: filter_id_conv)
  next
    case False
    show ?thesis
    proof (cases clicked)
      case (Remove_button j)
      show ?thesis
      proof (cases "j < length selected")
        case True
        with False Remove_button have a: "after = remove1 (selected ! j) selected"
          unfolding step by simp
        show ?thesis
          unfolding a remove1_distinct_filter[OF d]
          by (rule filter_subset_id) (rule set_remove1_subset)
      next
        case False
        with Remove_button have "after = selected" unfolding step by simp
        then show ?thesis by simp
      qed
    next
      case Clear_button
      with False have "after = []" unfolding step by simp
      then show ?thesis by simp
    next
      case No_click
      with False have "after = selected" unfolding step by simp
      then show ?thesis by simp
    next
      case Add_button
      with False have "after = selected" unfolding step by simp
      then show ?thesis by simp
    qed
  qed
  have add: "after = selected @ [the selected_course]"
    if "clicked = Add_button \<and> truthy selected_course \<and> the selected_course \<notin> set selected"
    using that unfolding step by simp
  have noop: "after = selected"
    if "clicked = Add_button \<and> selected_course = Some k \<and> k \<in> set selected"
    using that unfolding step by simp
  have remove: "after = remove1 (selected ! i) selected \<and> selected ! i \<notin> set after \<and>
         length after + 1 = length selected \<and> set after = set selected - {selected ! i}"
    if "clicked = Remove_button i \<and> i < length selected"
  proof -
    from that have a: "after = remove1 (selected ! i) selected"
      unfolding step by simp
    from that have m: "selected ! i \<in> set selected" by simp
    then have "0 < length selected" by (rule length_pos_if_in_set)
    with d m show ?thesis
      unfolding a by (simp add: length_remove1)
  qed
  have clear: "after = []" if "clicked = Clear_button"
    using that unfolding step by simp
  have idle: "after = selected" if "clicked = No_click"
    using that unfolding step by simp
  have "clicked = Add_button \<and> truthy selected_course \<and> the selected_course \<notin> set selected \<longrightarrow>
         after = selected @ [the selected_course]"
    by (rule impI) (rule add)
  moreover have "clicked = Add_button \<and> selected_course = Some k \<and> k \<in> set selected \<longrightarrow>
         after = selected"
    by (rule impI) (rule noop)
  moreover have "clicked = Remove_button i \<and> i < length selected \<longrightarrow>
         after = remove1 (selected ! i) selected \<and> selected ! i \<notin> set after \<and>
         length after + 1 = length selected \<and> set after = set selected - {selected ! i}"
    by (rule impI) (rule remove)
  moreover have "clicked = Clear_button \<longrightarrow> after = []"
    by (rule impI) (rule clear)
  moreover have "clicked = No_click \<longrightarrow> after = selected"
    by (rule impI) (rule idle)
  ultimately show ?thesis
    using d d' order by (intro conjI)
qed

theorem selection_set_invariant_witness:
  "initialize (example_table (\<lambda>y. 12))
     (comparison_session (example_table (\<lambda>y. 12)) example_predictions None [add_click, add_click]) =
     [''C1'']
   \<and> initialize (example_table (\<lambda>y. 12))
       (snd (create_course_comparison_ui (example_table (\<lambda>y. 12)) (Some ''C1'') Add_button
         (comparison_session (example_table (\<lambda>y. 12)) example_predictions None
            [add_click, add_click]))) = [''C1'']
   \<and> initialize (example_table (\<lambda>y. 12))
       (snd (create_course_comparison_ui (example_table (\<lambda>y. 12)) (Some ''C9'') Add_button
         (comparison_session (example_table (\<lambda>y. 12)) example_predictions None
            [add_click, add_click]))) = [''C1'', ''C9'']
   \<and> initialize (example_table (\<lambda>y. 12))
       (snd (create_course_comparison_ui (example_table (\<lambda>y. 12)) (Some ''C1'') (Remove_button 0)
         (comparison_session (example_table (\<lambda>y. 12)) example_predictions None
            [add_click, add_click]))) = []
   \<and> initialize (example_table (\<lambda>y. 12))
       (snd (create_course_comparison_ui (example_table (\<lambda>y. 12)) (Some ''C1'') Clear_button
         (comparison_session (example_table (\<lambda>y. 12)) example_predictions None
            [add_click, add_click]))) = []"
proof -
  let ?T = "example_table (\<lambda>y. 12)"
  let ?s = "comparison_session ?T example_predictions None [add_click, add_click]"
  have sel: "initialize ?T ?s = [''C1'']" by code_simp
  note t = selection_set_invariant[OF refl refl refl, of ?T example_predictions
      "[add_click, add_click]", unfolded sel]
  have 1: "initialize ?T (snd (create_course_comparison_ui ?T (Some ''C1'') Add_button ?s)) = [''C1'']"
    using t[of "Some ''C1''" Add_button "''C1''" 0] by simp
  have 2: "initialize ?T (snd (create_course_comparison_ui ?T (Some ''C9'') Add_button ?s)) =
      [''C1'', ''C9'']"
    using t[of "Some ''C9''" Add_button "''C1''" 0] by (simp add: truthy_def)
  have 3: "initialize ?T (snd (create_course_comparison_ui ?T (Some ''C1'') (Remove_button 0) ?s)) = []"
    using t[of "Some ''C1''" "Remove_button 0" "''C1''" 0] by simp
  have 4: "initialize ?T (snd (create_course_comparison_ui ?T (Some ''C1'') Clear_button ?s)) = []"
    using t[of "Some ''C1''" Clear_button "''C1''" 0] by simp
  from sel 1 2 3 4 show ?thesis by (intro conjI)
qed

section \<open>Properties of the loader\<close>

lemma load_data_body_missing:
  "cleaned_data_csv fs = None \<or> predictions_2025_csv fs = None \<Longrightarrow>
     load_data_body fs = (None, [St_error Files_not_found])"
  by (auto simp: load_data_body_def split: option.splits)

lemma main_aborts:
  "load_data fs cached = ((None, shown), cached') \<Longrightarrow>
     main fs cached state user = (Returned (Main_header # shown), cached', state)"
  by (simp add: main_def)

text \<open>
  Claim C7, as the code has it. A call of the loader that finds nothing cached, the first
  of the process, with either file absent returns \<^verbatim>\<open>(None, None)\<close> and shows the error, and
  \<^verbatim>\<open>main\<close> then shows the header and that error and nothing more, and leaves the session
  state as it was. Every later call returns this cached result and shows the error again,
  whatever files exist by then. In general \<^verbatim>\<open>main\<close> stops after the loader's messages
  whenever the loader returns \<^verbatim>\<open>(None, None)\<close>.
\<close>

theorem missing_file_aborts:
  "(cleaned_data_csv fs = None \<or> predictions_2025_csv fs = None \<longrightarrow>
      load_data fs None =
        ((None, [St_error Files_not_found]), Some (None, [St_error Files_not_found]))
      \<and> main fs None state user =
          (Returned [Main_header, St_error Files_not_found],
           Some (None, [St_error Files_not_found]), state))
   \<and> load_data fs' (Some (None, [St_error Files_not_found])) =
        ((None, [St_error Files_not_found]), Some (None, [St_error Files_not_found]))
   \<and> main fs' (Some (None, [St_error Files_not_found])) state user =
        (Returned [Main_header, St_error Files_not_found],
         Some (None, [St_error Files_not_found]), state)
   \<and> (fst (fst (load_data fs cached)) = None \<longrightarrow>
        main fs cached state user =
          (Returned (Main_header # snd (fst (load_data fs cached))), snd (load_data fs cached), state))"
proof (intro conjI impI)
  assume missing: "cleaned_data_csv fs = None \<or> predictions_2025_csv fs = None"
  show first: "load_data fs None =
        ((None, [St_error Files_not_found]), Some (None, [St_error Files_not_found]))"
    by (simp add: load_data_def Let_def load_data_body_missing[OF missing])
  show "main fs None state user =
          (Returned [Main_header, St_error Files_not_found],
           Some (None, [St_error Files_not_found]), state)"
    by (rule main_aborts[OF first])
next
  show hit: "load_data fs' (Some (None, [St_error Files_not_found])) =
        ((None, [St_error Files_not_found]), Some (None, [St_error Files_not_found]))"
    by (simp add: load_data_def)
  show "main fs' (Some (None, [St_error Files_not_found])) state user =
        (Returned [Main_header, St_error Files_not_found],
         Some (None, [St_error Files_not_found]), state)"
    by (rule main_aborts[OF hit])
next
  assume none: "fst (fst (load_data fs cached)) = None"
  then have "load_data fs cached =
      ((None, snd (fst (load_data fs cached))), snd (load_data fs cached))"
    by (metis prod.collapse)
  then show "main fs cached state user =
          (Returned (Main_header # snd (fst (load_data fs cached))), snd (load_data fs cached), state)"
    by (rule main_aborts)
qed

theorem missing_file_aborts_witness:
  "load_data \<lparr>cleaned_data_csv = Some six_history, predictions_2025_csv = None\<rparr> None =
     ((None, [St_error Files_not_found]), Some (None, [St_error Files_not_found]))
   \<and> main \<lparr>cleaned_data_csv = Some six_history, predictions_2025_csv = None\<rparr> None
        (Some [''A'']) add_click =
       (Returned [Main_header, St_error Files_not_found],
        Some (None, [St_error Files_not_found]), Some [''A''])
   \<and> main \<lparr>cleaned_data_csv = None, predictions_2025_csv = Some six_predictions\<rparr> None
        (Some [''A'']) add_click =
       (Returned [Main_header, St_error Files_not_found],
        Some (None, [St_error Files_not_found]), Some [''A''])"
proof -
  have a: "cleaned_data_csv \<lparr>cleaned_data_csv = Some six_history, predictions_2025_csv = None\<rparr> = None \<or>
      predictions_2025_csv \<lparr>cleaned_data_csv = Some six_history, predictions_2025_csv = None\<rparr> = None"
    by simp
  have b: "cleaned_data_csv \<lparr>cleaned_data_csv = None, predictions_2025_csv = Some six_predictions\<rparr> = None \<or>
      predictions_2025_csv \<lparr>cleaned_data_csv = None, predictions_2025_csv = Some six_predictions\<rparr> = None"
    by simp
  note t1 = missing_file_aborts[of "\<lparr>cleaned_data_csv = Some six_history, predictions_2025_csv = None\<rparr>"
      "Some [''A'']" add_click, THEN conjunct1, THEN mp, OF a]
  note t2 = missing_file_aborts[of "\<lparr>cleaned_data_csv = None, predictions_2025_csv = Some six_predictions\<rparr>"
      "Some [''A'']" add_click, THEN conjunct1, THEN mp, OF b]
  from t1 t2 show ?thesis by (intro conjI) (erule conjunct1 conjunct2)+
qed

text \<open>
  A call that finds the tables of an earlier call in the cache returns them, although both
  files are absent by now.
\<close>

theorem cached_tables_counterexample:
  "cleaned_data_csv \<lparr>cleaned_data_csv = None, predictions_2025_csv = None\<rparr> = None
   \<and> fst (load_data \<lparr>cleaned_data_csv = None, predictions_2025_csv = None\<rparr>
        (snd (load_data \<lparr>cleaned_data_csv = Some six_history,
                          predictions_2025_csv = Some six_predictions\<rparr> None))) =
      (Some (six_history, six_predictions), [])"
  by (simp add: load_data_def load_data_body_def Let_def)


end
